theory Spec2Isabelle
  imports Complex_Main "HOL-Library.AList"
begin

section \<open>Python values shared by the modules\<close>

text \<open>
  Python strings are modelled as \<open>string\<close>; a character outside ASCII is the sequence of
  its UTF-8 bytes. The \<open>print\<close> calls of the source have no effect on any value or file
  and are left out.
\<close>

definition lower_char :: "char \<Rightarrow> char" where
  \<comment> \<open>An upper-case ASCII letter (codes 65 to 90) gets bit 5 set: its code plus 32.\<close>
  "lower_char c =
     (case c of Char b0 b1 b2 b3 b4 b5 b6 b7 \<Rightarrow>
        if 65 \<le> (of_char c :: nat) \<and> (of_char c :: nat) \<le> 90
        then Char b0 b1 b2 b3 b4 True b6 b7 else c)"

definition lower :: "string \<Rightarrow> string" where
  \<comment> \<open>\<open>str.lower()\<close>, on the ASCII letters.\<close>
  "lower s = map lower_char s"

definition replace_char :: "char \<Rightarrow> string \<Rightarrow> string \<Rightarrow> string" where
  \<comment> \<open>\<open>s.replace(old, new)\<close> for a pattern \<open>old\<close> of one character.\<close>
  "replace_char old new s = concat (map (\<lambda>c. if c = old then new else [c]) s)"

fun join :: "string \<Rightarrow> string list \<Rightarrow> string" where
  "join sep [] = []"
| "join sep [x] = x"
| "join sep (x # y # ys) = x @ sep @ join sep (y # ys)"

definition dquote :: string where
  "dquote = [CHR 0x22]"

definition newline :: string where
  "newline = [CHR 0x0A]"

section \<open>metadata_generator.py\<close>

record metadata =
  title :: string
  description :: string
  tags :: "string list"

text \<open>
  The loop of \<open>_generate_tags\<close> that removes duplicates: \<open>seen\<close> is the set, \<open>unique_tags\<close>
  the list built so far.
\<close>

fun unique_loop :: "string list \<Rightarrow> string set \<Rightarrow> string list \<Rightarrow> string list" where
  "unique_loop [] seen unique_tags = unique_tags"
| "unique_loop (tag # rest) seen unique_tags =
     (if tag \<notin> seen then unique_loop rest (insert tag seen) (unique_tags @ [tag])
      else unique_loop rest seen unique_tags)"

definition base_tags :: "string \<Rightarrow> string \<Rightarrow> string list" where
  "base_tags artist_lower producer_lower =
     [producer_lower,
      artist_lower @ '' type beat'',
      ''free '' @ artist_lower @ '' type beat'',
      artist_lower @ '' type beat 2025'',
      ''free '' @ artist_lower @ '' type beat 2025'',
      ''type beat'',
      ''free type beat'',
      ''type beat 2025'',
      ''free type beat 2025'',
      ''beat'',
      ''beats'',
      ''type beats'',
      ''free type beats'',
      ''instrumental'',
      ''free instrumental'',
      ''rap beat'',
      ''hip hop beat'',
      ''trap beat'',
      ''free beat'',
      ''beats to rap to'',
      ''rap instrumental'']"

definition generate_tags :: "string \<Rightarrow> string \<Rightarrow> string list" where
  "generate_tags artist_type producer_name =
     (let artist_lower = lower artist_type;
          producer_lower = lower producer_name;
          tags0 = base_tags artist_lower producer_lower;
          tags1 =
            (if CHR '' '' \<in> set artist_type
             then (let artist_nospace = lower (replace_char (CHR '' '') [] artist_type)
                   in tags0 @ [artist_nospace @ '' type beat'',
                               ''free '' @ artist_nospace @ '' type beat''])
             else tags0)
      in take 50 (unique_loop tags1 {} []))"

definition money_bag :: string where
  "money_bag = [CHR 0xF0, CHR 0x9F, CHR 0x92, CHR 0xB0]"

definition e_mail :: string where
  "e_mail = [CHR 0xF0, CHR 0x9F, CHR 0x93, CHR 0xA7]"

definition mobile_phone :: string where
  "mobile_phone = [CHR 0xF0, CHR 0x9F, CHR 0x93, CHR 0xB1]"

definition musical_note :: string where
  "musical_note = [CHR 0xF0, CHR 0x9F, CHR 0x8E, CHR 0xB5]"

definition microphone :: string where
  "microphone = [CHR 0xF0, CHR 0x9F, CHR 0x8E, CHR 0xA4]"

definition headphone :: string where
  "headphone = [CHR 0xF0, CHR 0x9F, CHR 0x8E, CHR 0xA7]"

definition generate_description :: "string \<Rightarrow> string \<Rightarrow> string \<Rightarrow> string list \<Rightarrow> string" where
  "generate_description artist_type beat_name purchase_link tags_in =
     (let tags_text = join '','' (take 20 tags_in);
          artist_hashtag =
            replace_char (CHR ''-'') [] (replace_char (CHR '' '') [] (lower artist_type));
          hashtags = ''#'' @ artist_hashtag
                     @ ''typebeat #typebeat #freetypebeat #beats #instrumental'';
          purchase_section =
            (if purchase_link \<noteq> []
             then money_bag @ '' Purchase This Beat (Untagged) | '' @ purchase_link
                  @ newline @ newline
             else money_bag @ '' Purchase This Beat (Untagged) | [Add your beat store link]''
                  @ newline @ newline)
      in purchase_section @ ''Connect with me:'' @ newline
         @ e_mail @ '' Email | [Add your email]'' @ newline
         @ mobile_phone @ '' Instagram | [Add your Instagram]'' @ newline
         @ money_bag @ '' Beat Store | [Add your beat store]'' @ newline
         @ musical_note @ '' YouTube | [Add your YouTube channel]'' @ newline
         @ newline
         @ ''[FREE] '' @ artist_type @ '' Type Beat - '' @ dquote @ beat_name @ dquote @ newline
         @ newline
         @ ''This is a FREE type beat inspired by '' @ artist_type @ [CHR 0x27]
         @ ''s style. Perfect for artists looking for high-quality instrumentals to create their next hit!''
         @ newline
         @ newline
         @ microphone @ '' FREE FOR NON-PROFIT USE'' @ newline
         @ money_bag @ '' Purchase a license for commercial use'' @ newline
         @ headphone @ '' Download link in bio'' @ newline
         @ newline
         @ ''Tags: '' @ tags_text @ newline
         @ newline
         @ hashtags @ newline
         @ newline
         @ ''#music #hiphop #rap #producer #beatmaker #typebeats #freebeats'')"

definition generate_metadata :: "string \<Rightarrow> string \<Rightarrow> string \<Rightarrow> string \<Rightarrow> metadata" where
  "generate_metadata artist_type beat_name purchase_link producer_name =
     (let title_text = ''[FREE] '' @ artist_type @ '' Type Beat - '' @ dquote @ beat_name @ dquote;
          tag_list = generate_tags artist_type producer_name;
          description_text = generate_description artist_type beat_name purchase_link tag_list
      in \<lparr>title = title_text, description = description_text, tags = tag_list\<rparr>)"


section \<open>Decoded JSON values, exceptions, files\<close>

text \<open>
  What \<open>json.load\<close> and \<open>response.json()\<close> return. Numbers are reals: the rounding of
  floating-point arithmetic is not modelled. A dictionary is an association list read with
  \<open>map_of\<close> and written with \<open>AList.update\<close>. Python's \<open>None\<close> is \<open>JNull\<close>.
\<close>

datatype json =
  JNull
| JBool bool
| JNum real
| JStr string
| JArr "json list"
| JObj "(string \<times> json) list"

text \<open>
  Every handler of the source is \<open>except Exception as e\<close> and reads only \<open>str(e)\<close>.
  \<open>Exception\<close> carries the text given to it by the source; of the exceptions raised by
  the Python library only the class is kept, and \<open>ClientError\<close> stands for a failure of the
  HTTP transport.
\<close>

datatype exn =
  Exception string
| KeyError string
| TypeError
| AttributeError
| ValueError
| OSError
| ClientError string

fun str_exn :: "exn \<Rightarrow> string" where
  "str_exn (Exception m) = m"
| "str_exn (KeyError k) = [CHR 0x27] @ k @ [CHR 0x27]"
| "str_exn TypeError = ''TypeError''"
| "str_exn AttributeError = ''AttributeError''"
| "str_exn ValueError = ''ValueError''"
| "str_exn OSError = ''OSError''"
| "str_exn (ClientError m) = m"

fun truthy :: "json \<Rightarrow> bool" where
  "truthy JNull = False"
| "truthy (JBool b) = b"
| "truthy (JNum x) = (x \<noteq> 0)"
| "truthy (JStr s) = (s \<noteq> [])"
| "truthy (JArr xs) = (xs \<noteq> [])"
| "truthy (JObj kvs) = (kvs \<noteq> [])"

fun getitem :: "json \<Rightarrow> string \<Rightarrow> exn + json" where
  \<comment> \<open>\<open>d[k]\<close> with a string \<open>k\<close>\<close>
  "getitem (JObj kvs) k = (case map_of kvs k of None \<Rightarrow> Inl (KeyError k) | Some v \<Rightarrow> Inr v)"
| "getitem _ k = Inl TypeError"

fun dict_get :: "json \<Rightarrow> string \<Rightarrow> json \<Rightarrow> exn + json" where
  \<comment> \<open>\<open>d.get(k, default)\<close>\<close>
  "dict_get (JObj kvs) k dflt = (case map_of kvs k of None \<Rightarrow> Inr dflt | Some v \<Rightarrow> Inr v)"
| "dict_get _ k dflt = Inl AttributeError"

fun starts_with :: "string \<Rightarrow> string \<Rightarrow> bool" where
  "starts_with [] s = True"
| "starts_with (p # ps) [] = False"
| "starts_with (p # ps) (c # cs) = (p = c \<and> starts_with ps cs)"

fun substring :: "string \<Rightarrow> string \<Rightarrow> bool" where
  "substring p [] = (p = [])"
| "substring p (c # cs) = (starts_with p (c # cs) \<or> substring p cs)"

fun contains :: "string \<Rightarrow> json \<Rightarrow> exn + bool" where
  \<comment> \<open>\<open>k in d\<close> with a string \<open>k\<close>\<close>
  "contains k (JObj kvs) = Inr (map_of kvs k \<noteq> None)"
| "contains k (JArr xs) = Inr (JStr k \<in> set xs)"
| "contains k (JStr s) = Inr (substring k s)"
| "contains k _ = Inl TypeError"

fun as_number :: "json \<Rightarrow> exn + real" where
  \<comment> \<open>the operand of an arithmetic operation or comparison with a float; \<open>bool\<close> is an \<open>int\<close>\<close>
  "as_number (JNum x) = Inr x"
| "as_number (JBool b) = Inr (if b then 1 else 0)"
| "as_number _ = Inl TypeError"

definition trunc :: "real \<Rightarrow> int" where
  \<comment> \<open>\<open>int(x)\<close> of a float: rounding towards zero\<close>
  "trunc x = (if 0 \<le> x then \<lfloor>x\<rfloor> else \<lceil>x\<rceil>)"

fun str_nat :: "nat \<Rightarrow> string" where
  "str_nat n =
     (if n < 10 then [''0123456789'' ! n]
      else str_nat (n div 10) @ [''0123456789'' ! (n mod 10)])"

declare str_nat.simps [simp del]

definition str_int :: "int \<Rightarrow> string" where
  "str_int i = (if i < 0 then ''-'' @ str_nat (nat (- i)) else str_nat (nat i))"

text \<open>
  An image is its size, its mode and its pixels; a pixel is the list of its band values.
\<close>

type_synonym colour = "int list"

record image =
  width :: int
  height :: int
  mode :: string
  pixel :: "int \<Rightarrow> int \<Rightarrow> colour"

text \<open>
  A file has a length in bytes and a content: a JSON document, an encoded image, or
  anything else (audio, video, text that is not JSON).
\<close>

datatype content = Json json | Picture image | Opaque

record disk_file =
  fsize :: nat
  fcontent :: content

type_synonym fs = "string \<Rightarrow> disk_file option"

definition read_json :: "fs \<Rightarrow> string \<Rightarrow> exn + json" where
  \<comment> \<open>\<open>with open(path, 'r') as f: json.load(f)\<close>\<close>
  "read_json files_now path =
     (case files_now path of
        None \<Rightarrow> Inl OSError
      | Some f \<Rightarrow> (case fcontent f of Json j \<Rightarrow> Inr j | _ \<Rightarrow> Inl ValueError))"

definition basename :: "string \<Rightarrow> string" where
  \<comment> \<open>\<open>os.path.basename\<close>: what follows the last slash\<close>
  "basename path = rev (takeWhile (\<lambda>c. c \<noteq> CHR ''/'') (rev path))"

text \<open>
  An external process either cannot be started or exits with a return code, what it wrote
  and its standard error.
\<close>

datatype 'a proc = SpawnFailed | Exited int 'a string

text \<open>
  An HTTP exchange either fails in transport or yields a response: the status, the
  \<open>location\<close> header, the body as text, and the body decoded as JSON (\<open>None\<close> when
  \<open>response.json()\<close> raises).
\<close>

record response =
  resp_status :: int
  resp_location :: "string option"
  resp_text :: string
  resp_json :: "json option"

datatype reply = TransportFailure string | Response response

datatype request = POST string | PUT string

fun is_put :: "request \<Rightarrow> bool" where
  "is_put (PUT u) = True"
| "is_put (POST u) = False"

text \<open>
  Everything outside the program that one run of the pipeline reads: the library's pixel
  arithmetic, the external processes, the clock at each reading, the platform's replies,
  the length of the files the library encodes, and \<open>str()\<close> of a decoded JSON value.
\<close>

record env =
  pil_rgb :: "image \<Rightarrow> int \<Rightarrow> int \<Rightarrow> colour"
  pil_lanczos :: "image \<Rightarrow> int \<times> int \<Rightarrow> int \<Rightarrow> int \<Rightarrow> colour"
  jpeg_size :: nat
  ffprobe :: "real option proc"
  ffmpeg :: "disk_file option proc"
  now_job :: real
  now_upload :: real
  now_refresh :: real
  token_reply :: reply
  init_reply :: reply
  transfer_reply :: reply
  dump_size :: nat
  py_str :: "json \<Rightarrow> string"

section \<open>video_creator.py\<close>

text \<open>
  The operations of the imaging library on this model of an image. Cropping and pasting
  move pixels; converting the mode and resampling compute new pixels, by the library's
  arithmetic, which is a parameter.
\<close>

definition black :: colour where
  "black = [0, 0, 0]"

definition new_image :: "int \<times> int \<Rightarrow> colour \<Rightarrow> image" where
  \<comment> \<open>\<open>Image.new('RGB', size, color)\<close>\<close>
  "new_image sz c = \<lparr>width = fst sz, height = snd sz, mode = ''RGB'', pixel = (\<lambda>x y. c)\<rparr>"

definition convert_rgb :: "env \<Rightarrow> image \<Rightarrow> image" where
  \<comment> \<open>\<open>img.convert('RGB')\<close>\<close>
  "convert_rgb env img = img\<lparr>mode := ''RGB'', pixel := pil_rgb env img\<rparr>"

definition crop :: "image \<Rightarrow> int \<times> int \<times> int \<times> int \<Rightarrow> image" where
  \<comment> \<open>\<open>img.crop((left, top, right, bottom))\<close>\<close>
  "crop img box =
     (case box of (left, top_edge, right, bottom_edge) \<Rightarrow>
        \<lparr>width = right - left, height = bottom_edge - top_edge, mode = mode img,
         pixel = (\<lambda>x y. pixel img (x + left) (y + top_edge))\<rparr>)"

definition resize :: "env \<Rightarrow> image \<Rightarrow> int \<times> int \<Rightarrow> image" where
  \<comment> \<open>\<open>img.resize(size, Image.Resampling.LANCZOS)\<close>\<close>
  "resize env img sz =
     \<lparr>width = fst sz, height = snd sz, mode = mode img, pixel = pil_lanczos env img sz\<rparr>"

definition paste :: "image \<Rightarrow> image \<Rightarrow> int \<times> int \<Rightarrow> image" where
  \<comment> \<open>\<open>background.paste(im, (x_offset, y_offset))\<close>: the background after the call\<close>
  "paste background im off =
     (case off of (x_offset, y_offset) \<Rightarrow>
        background\<lparr>pixel :=
          (\<lambda>x y. if x_offset \<le> x \<and> x < x_offset + width im
                      \<and> y_offset \<le> y \<and> y < y_offset + height im
                   then pixel im (x - x_offset) (y - y_offset)
                   else pixel background x y)\<rparr>)"

definition temp_dir :: string where
  "temp_dir = ''temp''"

definition processed_path_of :: "string \<Rightarrow> string" where
  \<comment> \<open>the scratch location of \<open>_process_image\<close>\<close>
  "processed_path_of image_path =
     temp_dir @ ''/processed_cover_'' @ basename image_path @ ''.jpg''"

text \<open>
  The body of \<open>_process_image\<close> between opening the image and saving the canvas.
\<close>

definition compose_cover :: "env \<Rightarrow> image \<Rightarrow> image" where
  "compose_cover env img0 =
     (let img = (if mode img0 \<noteq> ''RGB'' then convert_rgb env img0 else img0);
          video_width = 1920;
          video_height = 1080;
          background = new_image (video_width, video_height) black;
          min_dimension = min (width img) (height img);
          left = (width img - min_dimension) div 2;
          top_edge = (height img - min_dimension) div 2;
          right = left + min_dimension;
          bottom_edge = top_edge + min_dimension;
          img_square = crop img (left, top_edge, right, bottom_edge);
          square_size = min (video_height - 100) (video_width div 2);
          img_resized = resize env img_square (square_size, square_size);
          x_offset = (video_width - square_size) div 2;
          y_offset = (video_height - square_size) div 2
      in paste background img_resized (x_offset, y_offset))"

definition process_image :: "env \<Rightarrow> fs \<Rightarrow> string \<Rightarrow> (exn + string) \<times> fs" where
  "process_image env files_now image_path =
     (case files_now image_path of
        None \<Rightarrow> (Inl (Exception (''Image processing failed: '' @ str_exn OSError)), files_now)
      | Some f \<Rightarrow>
          (case fcontent f of
             Picture img0 \<Rightarrow>
               (let processed_path = processed_path_of image_path
                in (Inr processed_path,
                    files_now(processed_path \<mapsto>
                      \<lparr>fsize = jpeg_size env, fcontent = Picture (compose_cover env img0)\<rparr>)))
           | _ \<Rightarrow> (Inl (Exception (''Image processing failed: '' @ str_exn OSError)), files_now)))"

definition probe_duration :: "real option proc \<Rightarrow> exn + real" where
  \<comment> \<open>the \<open>try\<close> block of \<open>_get_audio_duration\<close>; the process's output is given with the
      duration read from it, \<open>None\<close> when it does not parse\<close>
  "probe_duration p =
     (case p of
        SpawnFailed \<Rightarrow> Inl OSError
      | Exited returncode out err \<Rightarrow>
          if returncode \<noteq> 0 then Inl (Exception (''FFprobe failed: '' @ err))
          else (case out of None \<Rightarrow> Inl ValueError | Some duration \<Rightarrow> Inr duration))"

definition get_audio_duration :: "env \<Rightarrow> string \<Rightarrow> exn + real" where
  "get_audio_duration env audio_path =
     (case probe_duration (ffprobe env) of
        Inl e \<Rightarrow> Inl (Exception (''Failed to get audio duration: '' @ str_exn e))
      | Inr duration \<Rightarrow> Inr duration)"

text \<open>
  The result dictionaries of the renderer: \<open>{"success": True, "output_path", "file_size",
  "duration"}\<close> and \<open>{"success": False, "error"}\<close>.
\<close>

datatype video_result = VideoSuccess string nat real | VideoFailure string

fun video_success :: "video_result \<Rightarrow> bool" where
  "video_success (VideoSuccess p n d) = True"
| "video_success (VideoFailure e) = False"

text \<open>
  The encoder leaves a file at the output path or leaves the path as it was; this happens
  whatever its return code is.
\<close>

definition run_ffmpeg :: "fs \<Rightarrow> string \<Rightarrow> disk_file option \<Rightarrow> fs" where
  "run_ffmpeg files_now output_path written =
     (case written of None \<Rightarrow> files_now | Some f \<Rightarrow> files_now(output_path \<mapsto> f))"

definition encode :: "env \<Rightarrow> fs \<Rightarrow> string \<Rightarrow> real \<Rightarrow> (exn + video_result) \<times> fs" where
  \<comment> \<open>the \<open>try\<close> block of \<open>_create_video_with_ffmpeg\<close>\<close>
  "encode env files_now output_path duration =
     (case ffmpeg env of
        SpawnFailed \<Rightarrow> (Inl OSError, files_now)
      | Exited returncode written err \<Rightarrow>
          (let files_after = run_ffmpeg files_now output_path written
           in if returncode \<noteq> 0
              then (Inl (Exception (''FFmpeg failed: ''
                          @ (if err \<noteq> [] then err else ''Unknown FFmpeg error''))), files_after)
              else (case files_after output_path of
                      None \<Rightarrow> (Inl (Exception ''Output video file was not created''), files_after)
                    | Some f \<Rightarrow>
                        (let file_size = fsize f
                         in if file_size < 1000
                            then (Inl (Exception ''Output video file is too small''), files_after)
                            else (Inr (VideoSuccess output_path file_size duration),
                                  files_after)))))"

definition create_video_with_ffmpeg ::
  "env \<Rightarrow> fs \<Rightarrow> string \<Rightarrow> string \<Rightarrow> string \<Rightarrow> real \<Rightarrow> (exn + video_result) \<times> fs" where
  "create_video_with_ffmpeg env files_now audio_path image_path output_path duration =
     (case encode env files_now output_path duration of
        (Inl e, files_after) \<Rightarrow>
          (Inl (Exception (''FFmpeg video creation failed: '' @ str_exn e)), files_after)
      | (Inr result, files_after) \<Rightarrow> (Inr result, files_after))"

definition create_video ::
  "env \<Rightarrow> fs \<Rightarrow> string \<Rightarrow> string \<Rightarrow> string \<Rightarrow> string \<Rightarrow> video_result \<times> fs" where
  "create_video env files_now audio_path image_path output_path title_text =
     (case process_image env files_now image_path of
        (Inl e, files1) \<Rightarrow> (VideoFailure (str_exn e), files1)
      | (Inr processed_image_path, files1) \<Rightarrow>
          (case get_audio_duration env audio_path of
             Inl e \<Rightarrow> (VideoFailure (str_exn e), files1)
           | Inr duration \<Rightarrow>
               (case create_video_with_ffmpeg env files1 audio_path processed_image_path
                       output_path duration of
                  (Inl e, files2) \<Rightarrow> (VideoFailure (str_exn e), files2)
                | (Inr result, files2) \<Rightarrow>
                    (result,
                     if files2 processed_image_path \<noteq> None
                     then files2(processed_image_path := None) else files2))))"

section \<open>youtube_uploader.py\<close>

text \<open>
  What the uploader reads and changes: the files and the HTTP requests issued so far, in
  order. Of a request the method and the URL are kept.
\<close>

record world =
  files :: fs
  sent :: "request list"

definition token_url :: string where
  "token_url = ''https://oauth2.googleapis.com/token''"

definition upload_url :: string where
  "upload_url = ''https://www.googleapis.com/upload/youtube/v3/videos''"

definition init_url :: string where
  "init_url = upload_url @ ''?uploadType=resumable&part=snippet,status''"

fun setitem :: "json \<Rightarrow> string \<Rightarrow> json \<Rightarrow> exn + json" where
  \<comment> \<open>\<open>d[k] = v\<close> with a string \<open>k\<close>: the dictionary after the assignment\<close>
  "setitem (JObj kvs) k v = Inr (JObj (AList.update k v kvs))"
| "setitem _ k v = Inl TypeError"

fun refresh_error :: "env \<Rightarrow> json \<Rightarrow> exn" where
  \<comment> \<open>what \<open>raise Exception(refresh_data.get("error_description", refresh_data["error"]))\<close>
      raises\<close>
  "refresh_error env (JObj kvs) =
     (case getitem (JObj kvs) ''error'' of
        Inl e \<Rightarrow> e
      | Inr d \<Rightarrow>
          (case dict_get (JObj kvs) ''error_description'' d of
             Inl e \<Rightarrow> e
           | Inr v \<Rightarrow> Exception (py_str env v)))"
| "refresh_error env _ = AttributeError"

definition store_refreshed :: "env \<Rightarrow> json \<Rightarrow> json \<Rightarrow> exn + json" where
  \<comment> \<open>lines 104 to 107: the three assignments to \<open>creds_data\<close>\<close>
  "store_refreshed env creds_data refresh_data =
     (case getitem refresh_data ''access_token'' of
        Inl e \<Rightarrow> Inl e
      | Inr tok \<Rightarrow>
          (case setitem creds_data ''access_token'' tok of
             Inl e \<Rightarrow> Inl e
           | Inr creds1 \<Rightarrow>
               (case setitem creds1 ''created_at'' (JNum (now_refresh env)) of
                  Inl e \<Rightarrow> Inl e
                | Inr creds2 \<Rightarrow>
                    (case contains ''expires_in'' refresh_data of
                       Inl e \<Rightarrow> Inl e
                     | Inr has_expiry \<Rightarrow>
                         if has_expiry
                         then (case getitem refresh_data ''expires_in'' of
                                 Inl e \<Rightarrow> Inl e
                               | Inr x \<Rightarrow> setitem creds2 ''expires_in'' x)
                         else Inr creds2))))"

definition refresh_exchange ::
  "env \<Rightarrow> 'a world_scheme \<Rightarrow> string \<Rightarrow> (exn + json) \<times> 'a world_scheme" where
  \<comment> \<open>the \<open>try\<close> block of \<open>refresh_access_token\<close>\<close>
  "refresh_exchange env w creds_path =
     (case read_json (files w) creds_path of
        Inl e \<Rightarrow> (Inl e, w)
      | Inr creds_data \<Rightarrow>
          (case dict_get creds_data ''refresh_token'' JNull of
             Inl e \<Rightarrow> (Inl e, w)
           | Inr refresh_token \<Rightarrow>
               if \<not> truthy refresh_token
               then (Inl (Exception ''No refresh token available''), w)
               else
                 (case getitem creds_data ''refresh_token'' of
                    Inl e \<Rightarrow> (Inl e, w)
                  | Inr posted_token \<Rightarrow>
                      (let w1 = w\<lparr>sent := sent w @ [POST token_url]\<rparr>
                       in case token_reply env of
                            TransportFailure m \<Rightarrow> (Inl (ClientError m), w1)
                          | Response r \<Rightarrow>
                              (case resp_json r of
                                 None \<Rightarrow> (Inl ValueError, w1)
                               | Some refresh_data \<Rightarrow>
                                   (case contains ''error'' refresh_data of
                                      Inl e \<Rightarrow> (Inl e, w1)
                                    | Inr has_error \<Rightarrow>
                                        if has_error
                                        then (Inl (refresh_error env refresh_data), w1)
                                        else
                                          (case store_refreshed env creds_data refresh_data of
                                             Inl e \<Rightarrow> (Inl e, w1)
                                           | Inr creds_new \<Rightarrow>
                                               (let w2 = w1\<lparr>files := (files w1)(creds_path \<mapsto>
                                                           \<lparr>fsize = dump_size env,
                                                            fcontent = Json creds_new\<rparr>)\<rparr>
                                                in case getitem refresh_data ''access_token'' of
                                                     Inl e \<Rightarrow> (Inl e, w2)
                                                   | Inr tok \<Rightarrow> (Inr tok, w2)))))))))"

definition refresh_access_token ::
  "env \<Rightarrow> 'a world_scheme \<Rightarrow> string \<Rightarrow> json \<times> 'a world_scheme" where
  \<comment> \<open>the value returned is the new access token, or \<open>None\<close>\<close>
  "refresh_access_token env w creds_path =
     (case refresh_exchange env w creds_path of
        (Inl e, w') \<Rightarrow> (JNull, w')
      | (Inr tok, w') \<Rightarrow> (tok, w'))"

definition token_expired :: "real \<Rightarrow> json \<Rightarrow> exn + bool" where
  \<comment> \<open>lines 132 to 134 of \<open>upload_video\<close>\<close>
  "token_expired now creds_data =
     (case getitem creds_data ''created_at'' of
        Inl e \<Rightarrow> Inl e
      | Inr c \<Rightarrow>
          (case as_number c of
             Inl e \<Rightarrow> Inl e
           | Inr created_at \<Rightarrow>
               (let token_age = now - created_at
                in case getitem creds_data ''expires_in'' of
                     Inl e \<Rightarrow> Inl e
                   | Inr x \<Rightarrow>
                       (case as_number x of
                          Inl e \<Rightarrow> Inl e
                        | Inr expires_in \<Rightarrow> Inr (token_age > expires_in)))))"

text \<open>
  The result dictionaries of the uploader: \<open>{"success": True, "video_id", "video_url",
  "title"}\<close> and \<open>{"success": False, "error"}\<close>.
\<close>

datatype upload_result = UploadSuccess json string string | UploadFailure string

definition resumable_upload ::
  "env \<Rightarrow> 'a world_scheme \<Rightarrow> string \<Rightarrow> metadata \<Rightarrow> json
     \<Rightarrow> (exn + upload_result) \<times> 'a world_scheme" where
  \<comment> \<open>the \<open>async with aiohttp.ClientSession()\<close> block of \<open>upload_video\<close>\<close>
  "resumable_upload env w video_path md access_token =
     (let w1 = w\<lparr>sent := sent w @ [POST init_url]\<rparr>
      in case init_reply env of
           TransportFailure m \<Rightarrow> (Inl (ClientError m), w1)
         | Response r \<Rightarrow>
             if resp_status r \<noteq> 200
             then (Inr (UploadFailure (''Upload init failed: '' @ resp_text r)), w1)
             else
               (case resp_location r of
                  None \<Rightarrow> (Inr (UploadFailure ''No upload URL received''), w1)
                | Some upload_location \<Rightarrow>
                    if upload_location = []
                    then (Inr (UploadFailure ''No upload URL received''), w1)
                    else
                      (case files w1 video_path of
                         None \<Rightarrow> (Inl OSError, w1)
                       | Some video_file \<Rightarrow>
                           (let w2 = w1\<lparr>sent := sent w1 @ [PUT upload_location]\<rparr>
                            in case transfer_reply env of
                                 TransportFailure m \<Rightarrow> (Inl (ClientError m), w2)
                               | Response r2 \<Rightarrow>
                                   if resp_status r2 \<noteq> 200 \<and> resp_status r2 \<noteq> 201
                                   then (Inr (UploadFailure
                                                (''Video upload failed: '' @ resp_text r2)), w2)
                                   else
                                     (case resp_json r2 of
                                        None \<Rightarrow> (Inl ValueError, w2)
                                      | Some upload_json \<Rightarrow>
                                          (case contains ''id'' upload_json of
                                             Inl e \<Rightarrow> (Inl e, w2)
                                           | Inr has_id \<Rightarrow>
                                               if \<not> has_id
                                               then (Inr (UploadFailure
                                                       ''No video ID received from YouTube''), w2)
                                               else
                                                 (case getitem upload_json ''id'' of
                                                    Inl e \<Rightarrow> (Inl e, w2)
                                                  | Inr video_id \<Rightarrow>
                                                      (Inr (UploadSuccess video_id
                                                              (''https://www.youtube.com/watch?v=''
                                                                 @ py_str env video_id)
                                                              (title md)), w2))))))))"

definition upload_attempt ::
  "env \<Rightarrow> 'a world_scheme \<Rightarrow> string \<Rightarrow> metadata \<Rightarrow> string
     \<Rightarrow> (exn + upload_result) \<times> 'a world_scheme" where
  \<comment> \<open>the \<open>try\<close> block of \<open>upload_video\<close>\<close>
  "upload_attempt env w video_path md creds_path =
     (if files w creds_path = None
      then (Inr (UploadFailure ''YouTube credentials not found''), w)
      else
        (case read_json (files w) creds_path of
           Inl e \<Rightarrow> (Inl e, w)
         | Inr creds_data \<Rightarrow>
             (case token_expired (now_upload env) creds_data of
                Inl e \<Rightarrow> (Inl e, w)
              | Inr expired \<Rightarrow>
                  (case getitem creds_data ''access_token'' of
                     Inl e \<Rightarrow> (Inl e, w)
                   | Inr stored_token \<Rightarrow>
                       if expired
                       then
                         (case refresh_access_token env w creds_path of
                            (access_token, w1) \<Rightarrow>
                              if \<not> truthy access_token
                              then (Inr (UploadFailure ''Failed to refresh access token''), w1)
                              else resumable_upload env w1 video_path md access_token)
                       else resumable_upload env w video_path md stored_token))))"

definition upload_video ::
  "env \<Rightarrow> 'a world_scheme \<Rightarrow> string \<Rightarrow> metadata \<Rightarrow> string
     \<Rightarrow> upload_result \<times> 'a world_scheme" where
  "upload_video env w video_path md creds_path =
     (case upload_attempt env w video_path md creds_path of
        (Inl e, w') \<Rightarrow> (UploadFailure (''YouTube upload failed: '' @ str_exn e), w')
      | (Inr result, w') \<Rightarrow> (result, w'))"

text \<open>
  The requests of a trace that start an upload session, and those that transfer the video.
\<close>

definition initiation_requests :: "request list \<Rightarrow> request list" where
  "initiation_requests qs = filter (\<lambda>q. q = POST init_url) qs"

definition transfer_requests :: "request list \<Rightarrow> request list" where
  "transfer_requests qs = filter is_put qs"

section \<open>main.py\<close>

record VideoRequest =
  beatName :: string
  artistType :: string
  producerName :: string
  userId :: string

text \<open>
  A job is the dictionary stored in \<open>jobs\<close>; a key that is not in the dictionary is a
  field that is \<open>None\<close>.
\<close>

record job = VideoRequest +
  jobId :: string
  status :: string
  progress :: int
  message :: string
  createdAt :: string
  videoPath :: "string option"
  youtubeUrl :: "string option"
  videoId :: "json option"
  youtubeError :: "string option"
  error :: "string option"

text \<open>
  The state of the application: the world of the uploader and the dictionary \<open>jobs\<close>.
  The uploader is run on the world part and its changes are taken over.
\<close>

record state = world +
  jobs :: "string \<Rightarrow> job option"

definition new_job :: "string \<Rightarrow> string \<Rightarrow> VideoRequest \<Rightarrow> job" where
  \<comment> \<open>lines 103 to 113 of the endpoint \<open>create_video\<close>\<close>
  "new_job job_id created_at req =
     \<lparr>beatName = beatName req, artistType = artistType req,
      producerName = producerName req, userId = userId req,
      jobId = job_id, status = ''processing'', progress = 0,
      message = ''Starting video creation...'', createdAt = created_at,
      videoPath = None, youtubeUrl = None, videoId = None,
      youtubeError = None, error = None\<rparr>"

fun cleanup_files :: "fs \<Rightarrow> string list \<Rightarrow> fs" where
  "cleanup_files files_now [] = files_now"
| "cleanup_files files_now (file_path # rest) =
     cleanup_files
       (if files_now file_path \<noteq> None then files_now(file_path := None) else files_now) rest"

definition update_job :: "state \<Rightarrow> string \<Rightarrow> (job \<Rightarrow> job) \<Rightarrow> state" where
  \<comment> \<open>assignments \<open>jobs[job_id][key] = value\<close>, for a job that is in \<open>jobs\<close>\<close>
  "update_job st job_id f = st\<lparr>jobs := (jobs st)(job_id := map_option f (jobs st job_id))\<rparr>"

definition cleanup :: "state \<Rightarrow> string list \<Rightarrow> state" where
  "cleanup st file_paths = st\<lparr>files := cleanup_files (files st) file_paths\<rparr>"

definition creds_path_of :: "string \<Rightarrow> string" where
  "creds_path_of user_id = ''user_credentials/youtube_'' @ user_id @ ''.json''"

definition output_path_of :: "env \<Rightarrow> VideoRequest \<Rightarrow> string" where
  \<comment> \<open>lines 260 to 262\<close>
  "output_path_of env req =
     (let safe_filename =
            replace_char (CHR ''/'') ''_'' (replace_char (CHR '' '') ''_'' (beatName req));
          output_filename = safe_filename @ ''_'' @ str_int (trunc (now_job env)) @ ''.mp4''
      in ''videos/'' @ output_filename)"

definition process_video_background ::
  "env \<Rightarrow> state \<Rightarrow> string \<Rightarrow> string \<Rightarrow> string \<Rightarrow> VideoRequest \<Rightarrow> exn + state" where
  "process_video_background env st job_id audio_path image_path req =
     (case jobs st job_id of
        None \<Rightarrow> Inl (KeyError job_id)
      | Some j \<Rightarrow>
          (let st1 = update_job st job_id
                       (\<lambda>j. j\<lparr>progress := 10, message := ''Preparing files...''\<rparr>);
               video_metadata =
                 generate_metadata (artistType req) (beatName req) [] (producerName req);
               output_path = output_path_of env req;
               st2 = update_job st1 job_id
                       (\<lambda>j. j\<lparr>progress := 30, message := ''Creating video...''\<rparr>)
           in case create_video env (files st2) audio_path image_path output_path
                     (title video_metadata) of
                (VideoFailure err, files3) \<Rightarrow>
                  Inr (cleanup
                         (update_job (st2\<lparr>files := files3\<rparr>) job_id
                            (\<lambda>j. j\<lparr>status := ''failed'', error := Some err\<rparr>))
                         [audio_path, image_path])
              | (VideoSuccess p n d, files3) \<Rightarrow>
                  (let st3 = update_job (st2\<lparr>files := files3\<rparr>) job_id
                               (\<lambda>j. j\<lparr>progress := 80,
                                       message := ''Video created successfully!'',
                                       videoPath := Some output_path\<rparr>);
                       youtube_creds_path = creds_path_of (userId req)
                   in if files st3 youtube_creds_path \<noteq> None
                      then
                        (let st4 = update_job st3 job_id
                                     (\<lambda>j. j\<lparr>progress := 90,
                                             message := ''Uploading to YouTube...''\<rparr>)
                         in case upload_video env \<lparr>files = files st4, sent = sent st4\<rparr>
                                   output_path video_metadata youtube_creds_path of
                              (UploadSuccess video_id video_url t, w5) \<Rightarrow>
                                Inr (cleanup
                                       (update_job (st4\<lparr>files := files w5, sent := sent w5\<rparr>)
                                          job_id
                                          (\<lambda>j. j\<lparr>progress := 100, status := ''completed'',
                                                  message :=
                                                    ''Video uploaded to YouTube successfully!'',
                                                  youtubeUrl := Some video_url,
                                                  videoId := Some video_id\<rparr>))
                                       [audio_path, image_path])
                            | (UploadFailure err, w5) \<Rightarrow>
                                Inr (cleanup
                                       (update_job (st4\<lparr>files := files w5, sent := sent w5\<rparr>)
                                          job_id
                                          (\<lambda>j. j\<lparr>progress := 100, status := ''completed'',
                                                  message :=
                                                    ''Video created but YouTube upload failed'',
                                                  youtubeError := Some err\<rparr>))
                                       [audio_path, image_path]))
                      else
                        Inr (cleanup
                               (update_job st3 job_id
                                  (\<lambda>j. j\<lparr>progress := 100, status := ''completed'',
                                          message :=
                                            ''Video created successfully (YouTube not connected)''\<rparr>))
                               [audio_path, image_path]))))"

section \<open>The scenarios of the specification as concrete inputs\<close>

text \<open>
  Scenario 1: a three-second audio clip and a 4000 by 2000 cover, every external step
  succeeding. The other scenarios change one answer of this environment.
\<close>

definition cover_4000x2000 :: image where
  "cover_4000x2000 =
     \<lparr>width = 4000, height = 2000, mode = ''RGB'',
      pixel = (\<lambda>x y. [x mod 256, y mod 256, 0])\<rparr>"

definition scenario_files :: fs where
  "scenario_files =
     [''uploads/j1_audio_beat.mp3'' \<mapsto> \<lparr>fsize = 48000, fcontent = Opaque\<rparr>,
      ''uploads/j1_cover_art.png'' \<mapsto> \<lparr>fsize = 900000, fcontent = Picture cover_4000x2000\<rparr>]"

definition scenario_env :: env where
  "scenario_env =
     \<lparr>pil_rgb = (\<lambda>img. pixel img),
      pil_lanczos = (\<lambda>img sz x y. pixel img (x * width img div fst sz) (y * height img div snd sz)),
      jpeg_size = 250000,
      ffprobe = Exited 0 (Some 3) [],
      ffmpeg = Exited 0 (Some \<lparr>fsize = 120000, fcontent = Opaque\<rparr>) [],
      now_job = 1730000000,
      now_upload = 1730000100,
      now_refresh = 1730000101,
      token_reply = Response \<lparr>resp_status = 200, resp_location = None, resp_text = [],
                               resp_json = Some (JObj [(''access_token'', JStr ''fresh''),
                                                       (''expires_in'', JNum 3599),
                                                       (''refresh_token'', JStr ''rotated'')])\<rparr>,
      init_reply = Response \<lparr>resp_status = 200, resp_location = Some ''https://upload.example/session1'',
                              resp_text = [], resp_json = None\<rparr>,
      transfer_reply = Response \<lparr>resp_status = 200, resp_location = None, resp_text = [],
                                  resp_json = Some (JObj [(''id'', JStr ''abc123'')])\<rparr>,
      dump_size = 300,
      py_str = (\<lambda>v. case v of JStr s \<Rightarrow> s | _ \<Rightarrow> ''?'')\<rparr>"

definition scenario_creds :: json where
  "scenario_creds =
     JObj [(''access_token'', JStr ''stale''),
           (''refresh_token'', JStr ''keep''),
           (''token_type'', JStr ''Bearer''),
           (''expires_in'', JNum 3600),
           (''scope'', JStr ''https://www.googleapis.com/auth/youtube.upload''),
           (''created_at'', JNum 1729996500)]"

definition scenario_world :: world where
  "scenario_world =
     \<lparr>files = scenario_files
        (''user_credentials/youtube_u1.json'' \<mapsto> \<lparr>fsize = 280, fcontent = Json scenario_creds\<rparr>,
         ''videos/Night_1730000000.mp4'' \<mapsto> \<lparr>fsize = 120000, fcontent = Opaque\<rparr>),
      sent = []\<rparr>"

definition scenario_metadata :: metadata where
  "scenario_metadata = generate_metadata ''Lil Baby'' ''Night'' [] ''Prod''"

text \<open>
  Scenario 3: the credential record of the user is expired and has no refresh token.
\<close>

definition scenario_request :: VideoRequest where
  "scenario_request =
     \<lparr>beatName = ''Night'', artistType = ''Lil Baby'', producerName = ''Prod'',
      userId = ''u1''\<rparr>"

definition expired_creds :: json where
  "expired_creds =
     JObj [(''access_token'', JStr ''stale''),
           (''refresh_token'', JNull),
           (''token_type'', JStr ''Bearer''),
           (''expires_in'', JNum 3600),
           (''scope'', JStr ''https://www.googleapis.com/auth/youtube.upload''),
           (''created_at'', JNum 1729990000)]"

definition scenario_state :: state where
  "scenario_state =
     \<lparr>files = scenario_files
        (''user_credentials/youtube_u1.json'' \<mapsto> \<lparr>fsize = 270, fcontent = Json expired_creds\<rparr>),
      sent = [],
      jobs = [''j1'' \<mapsto> new_job ''j1'' ''2024-10-27T03:33:20'' scenario_request]\<rparr>"

section \<open>Properties of the metadata generator\<close>

lemma unique_loop_inv:
  "seen = set acc \<Longrightarrow> distinct acc \<Longrightarrow>
     distinct (unique_loop ts seen acc) \<and> set (unique_loop ts seen acc) = set acc \<union> set ts
     \<and> length (unique_loop ts seen acc) \<le> length acc + length ts
     \<and> (\<exists>more. unique_loop ts seen acc = acc @ more)"
proof (induction ts arbitrary: seen acc)
  case Nil
  then show ?case by simp
next
  case (Cons t ts)
  show ?case
  proof (cases "t \<in> seen")
    case True
    with Cons.IH [of seen acc] Cons.prems show ?thesis by auto
  next
    case False
    with Cons.prems have "insert t seen = set (acc @ [t])" "distinct (acc @ [t])"
      by auto
    from Cons.IH [OF this] False show ?thesis by auto
  qed
qed

text \<open>
  Claim C9. For every artist type and producer name, the tag list of the generated metadata
  has no duplicates, has at most 50 elements and starts with the lower-cased producer name,
  and the title is \<open>[FREE] {artist_type} Type Beat - "{beat_name}"\<close>. The generator reads
  nothing but its four arguments, so it is a function of them. The proof uses no property
  of \<open>lower\<close>: it holds as well for the lower-casing of characters outside ASCII.
\<close>

theorem generate_metadata_tags_title:
  "distinct (tags (generate_metadata artist_type beat_name purchase_link producer_name))
   \<and> length (tags (generate_metadata artist_type beat_name purchase_link producer_name)) \<le> 50
   \<and> (\<exists>rest. tags (generate_metadata artist_type beat_name purchase_link producer_name)
                = lower producer_name # rest)
   \<and> title (generate_metadata artist_type beat_name purchase_link producer_name)
       = ''[FREE] '' @ artist_type @ '' Type Beat - '' @ [CHR 0x22] @ beat_name @ [CHR 0x22]"
proof -
  define ts where "ts = tags (generate_metadata artist_type beat_name purchase_link producer_name)"
  obtain extra where ts_eq:
    "ts = take 50 (unique_loop (base_tags (lower artist_type) (lower producer_name) @ extra) {} [])"
    unfolding ts_def generate_metadata_def generate_tags_def Let_def
    by (cases "CHR '' '' \<in> set artist_type") (simp_all, metis append_Nil2)
  obtain others where
    bt: "base_tags (lower artist_type) (lower producer_name) = lower producer_name # others"
    by (simp add: base_tags_def)
  have step: "unique_loop ((lower producer_name # others) @ extra) {} []
        = unique_loop (others @ extra) (set [lower producer_name]) [lower producer_name]"
    by simp
  from unique_loop_inv [of "set [lower producer_name]" "[lower producer_name]" "others @ extra"]
  obtain more where
    d: "distinct (unique_loop (others @ extra) (set [lower producer_name]) [lower producer_name])"
    and m: "unique_loop (others @ extra) (set [lower producer_name]) [lower producer_name]
              = [lower producer_name] @ more"
    by auto
  have "distinct ts" using ts_eq bt step d by (simp del: unique_loop.simps)
  moreover have "length ts \<le> 50" using ts_eq by simp
  moreover have "ts = lower producer_name # take 49 more"
    using ts_eq bt step m by (simp del: unique_loop.simps add: take_Cons')
  moreover have "title (generate_metadata artist_type beat_name purchase_link producer_name)
       = ''[FREE] '' @ artist_type @ '' Type Beat - '' @ [CHR 0x22] @ beat_name @ [CHR 0x22]"
    by (simp add: generate_metadata_def dquote_def Let_def)
  ultimately show ?thesis unfolding ts_def by blast
qed

theorem generate_metadata_tags_title_witness:
  "distinct (tags (generate_metadata ''Lil Baby'' ''Night'' [] ''Prod''))
   \<and> length (tags (generate_metadata ''Lil Baby'' ''Night'' [] ''Prod'')) \<le> 50
   \<and> (\<exists>rest. tags (generate_metadata ''Lil Baby'' ''Night'' [] ''Prod'') = ''prod'' # rest)"
  using generate_metadata_tags_title [of "''Lil Baby''" "''Night''" "[]" "''Prod''"]
  by (simp add: lower_def lower_char_def)

section \<open>Properties of the renderer\<close>

lemma compose_cover_eq:
  "compose_cover env img0 =
     paste (new_image (1920, 1080) black)
       (resize env
          (crop (if mode img0 \<noteq> ''RGB'' then convert_rgb env img0 else img0)
             ((width img0 - min (width img0) (height img0)) div 2,
              (height img0 - min (width img0) (height img0)) div 2,
              (width img0 - min (width img0) (height img0)) div 2 + min (width img0) (height img0),
              (height img0 - min (width img0) (height img0)) div 2 + min (width img0) (height img0)))
          (960, 960))
       (480, 60)"
  by (simp add: compose_cover_def Let_def convert_rgb_def)

text \<open>
  Claim C5. For every source image of width \<open>w\<close> and height \<open>h\<close> (both positive), image
  normalization crops the centred square of side \<open>s = min w h\<close> at offsets
  \<open>left = (w - s) div 2\<close>, \<open>top = (h - s) div 2\<close>, resizes it to side
  \<open>min (1080 - 100) (1920 div 2)\<close>, which is at most 980 and at most 960, and pastes it at
  offsets \<open>((1920 - side) div 2, (1080 - side) div 2)\<close> on a black canvas that is exactly
  1920 by 1080; the canvas is what is written to the scratch location. The divisions are
  the integer divisions of the source.
\<close>
theorem process_image_geometry:
  assumes "files_now image_path = Some f" and "fcontent f = Picture img0"
    and "0 < width img0" and "0 < height img0"
    and "s = min (width img0) (height img0)"
    and "left = (width img0 - s) div 2"
    and "top_edge = (height img0 - s) div 2"
    and "side = min (1080 - 100) (1920 div 2)"
    and "img = (if mode img0 \<noteq> ''RGB'' then convert_rgb env img0 else img0)"
    and "square = resize env (crop img (left, top_edge, left + s, top_edge + s)) (side, side)"
  shows "\<exists>canvas.
           process_image env files_now image_path =
             (Inr (processed_path_of image_path),
              files_now(processed_path_of image_path \<mapsto>
                \<lparr>fsize = jpeg_size env, fcontent = Picture canvas\<rparr>))
         \<and> canvas = paste (new_image (1920, 1080) black) square
                      ((1920 - side) div 2, (1080 - side) div 2)
         \<and> width canvas = 1920 \<and> height canvas = 1080
         \<and> 0 \<le> left \<and> 0 \<le> top_edge \<and> left + s \<le> width img0 \<and> top_edge + s \<le> height img0
         \<and> width (crop img (left, top_edge, left + s, top_edge + s)) = s
         \<and> height (crop img (left, top_edge, left + s, top_edge + s)) = s
         \<and> width square = side \<and> height square = side
         \<and> side \<le> 980 \<and> side \<le> 960
         \<and> (1920 - side) div 2 = 480 \<and> (1080 - side) div 2 = 60
         \<and> (\<forall>x y. pixel canvas x y =
               (if 480 \<le> x \<and> x < 480 + side \<and> 60 \<le> y \<and> y < 60 + side
                then pixel square (x - 480) (y - 60) else black))"
proof -
  have side: "side = 960" using assms(8) by simp
  have cc: "compose_cover env img0 = paste (new_image (1920, 1080) black) square (480, 60)"
    using assms(5,6,7,9,10) side by (simp add: compose_cover_eq)
  have p: "process_image env files_now image_path =
             (Inr (processed_path_of image_path),
              files_now(processed_path_of image_path \<mapsto>
                \<lparr>fsize = jpeg_size env, fcontent = Picture (compose_cover env img0)\<rparr>))"
    using assms(1,2) by (simp add: process_image_def Let_def)
  have b: "0 \<le> left \<and> 0 \<le> top_edge \<and> left + s \<le> width img0 \<and> top_edge + s \<le> height img0"
    using assms(5,6,7) by auto
  have sq: "width square = side \<and> height square = side"
    using assms(10) by (simp add: resize_def)
  have px: "\<forall>x y. pixel (paste (new_image (1920, 1080) black) square (480, 60)) x y =
               (if 480 \<le> x \<and> x < 480 + side \<and> 60 \<le> y \<and> y < 60 + side
                then pixel square (x - 480) (y - 60) else black)"
    using sq by (simp add: paste_def new_image_def)
  show ?thesis
    using p cc side b sq px by (simp add: paste_def new_image_def crop_def)
qed

theorem process_image_geometry_witness:
  "\<exists>canvas.
     process_image scenario_env scenario_files ''uploads/j1_cover_art.png'' =
       (Inr ''temp/processed_cover_j1_cover_art.png.jpg'',
        scenario_files(''temp/processed_cover_j1_cover_art.png.jpg'' \<mapsto>
          \<lparr>fsize = 250000, fcontent = Picture canvas\<rparr>))
     \<and> width canvas = 1920 \<and> height canvas = 1080
     \<and> pixel canvas 479 60 = black
     \<and> pixel canvas 480 60 = pixel cover_4000x2000 1000 0"
proof -
  have f: "scenario_files ''uploads/j1_cover_art.png''
             = Some \<lparr>fsize = 900000, fcontent = Picture cover_4000x2000\<rparr>"
    by (simp add: scenario_files_def)
  have c: "fcontent \<lparr>fsize = 900000, fcontent = Picture cover_4000x2000\<rparr> = Picture cover_4000x2000"
    by simp
  have w: "0 < width cover_4000x2000" and h: "0 < height cover_4000x2000"
    by (simp_all add: cover_4000x2000_def)
  have s: "(2000::int) = min (width cover_4000x2000) (height cover_4000x2000)"
    and l: "(1000::int) = (width cover_4000x2000 - 2000) div 2"
    and t: "(0::int) = (height cover_4000x2000 - 2000) div 2"
    and side: "(960::int) = min (1080 - 100) (1920 div 2)"
    and img: "cover_4000x2000 = (if mode cover_4000x2000 \<noteq> ''RGB''
                then convert_rgb scenario_env cover_4000x2000 else cover_4000x2000)"
    by (simp_all add: cover_4000x2000_def)
  from process_image_geometry
         [where files_now = scenario_files and image_path = "''uploads/j1_cover_art.png''"
            and env = scenario_env, OF f c w h s l t side img refl]
  obtain canvas where
    p: "process_image scenario_env scenario_files ''uploads/j1_cover_art.png'' =
          (Inr (processed_path_of ''uploads/j1_cover_art.png''),
           scenario_files(processed_path_of ''uploads/j1_cover_art.png'' \<mapsto>
             \<lparr>fsize = jpeg_size scenario_env, fcontent = Picture canvas\<rparr>))"
    and sz: "width canvas = 1920" "height canvas = 1080"
    and px: "\<forall>x y. pixel canvas x y =
               (if 480 \<le> x \<and> x < 480 + 960 \<and> 60 \<le> y \<and> y < 60 + 960
                then pixel (resize scenario_env
                              (crop cover_4000x2000 (1000, 0, 1000 + 2000, 0 + 2000)) (960, 960))
                       (x - 480) (y - 60)
                else black)"
    by blast
  have "pixel canvas 479 60 = black" using px by simp
  moreover have "pixel canvas 480 60 = pixel cover_4000x2000 1000 0"
    using px by (simp add: resize_def crop_def scenario_env_def cover_4000x2000_def)
  moreover have "processed_path_of ''uploads/j1_cover_art.png''
                   = ''temp/processed_cover_j1_cover_art.png.jpg''"
    by (simp add: processed_path_of_def temp_dir_def basename_def)
  moreover have "jpeg_size scenario_env = 250000" by (simp add: scenario_env_def)
  ultimately show ?thesis using p sz by auto
qed


lemma encode_success:
  "encode env files_now output_path d = (Inr r, files_after) \<Longrightarrow>
     \<exists>f. files_after output_path = Some f \<and> 1000 \<le> fsize f
         \<and> r = VideoSuccess output_path (fsize f) d"
  by (auto simp: encode_def Let_def split: proc.splits option.splits if_splits)

lemma encode_rejects:
  "ffmpeg env = Exited 0 written err \<Longrightarrow>
   (case run_ffmpeg files_now output_path written output_path of
      None \<Rightarrow> True | Some f \<Rightarrow> fsize f < 1000) \<Longrightarrow>
   \<exists>e. fst (encode env files_now output_path d) = Inl e"
  by (auto simp: encode_def Let_def split: option.splits)

lemma create_video_with_ffmpeg_success:
  "create_video_with_ffmpeg env files_now a i output_path d = (Inr r, files_after) \<Longrightarrow>
     \<exists>f. files_after output_path = Some f \<and> 1000 \<le> fsize f
         \<and> r = VideoSuccess output_path (fsize f) d"
  by (auto simp: create_video_with_ffmpeg_def split: prod.splits sum.splits dest: encode_success)

lemma create_video_success:
  assumes "create_video env files_now a i output_path t = (r, files_final)"
    and "video_success r"
  shows "\<exists>files1 d files2.
           process_image env files_now i = (Inr (processed_path_of i), files1)
         \<and> get_audio_duration env a = Inr d
         \<and> create_video_with_ffmpeg env files1 a (processed_path_of i) output_path d = (Inr r, files2)
         \<and> files_final = (if files2 (processed_path_of i) \<noteq> None
                           then files2(processed_path_of i := None) else files2)"
proof -
  obtain pr files1 where p: "process_image env files_now i = (pr, files1)" by (cases "process_image env files_now i")
  show ?thesis
  proof (cases pr)
    case (Inl e)
    with assms p show ?thesis by (auto simp: create_video_def)
  next
    case (Inr pp)
    have pp: "pp = processed_path_of i"
      using p Inr by (auto simp: process_image_def Let_def split: option.splits content.splits)
    show ?thesis
    proof (cases "get_audio_duration env a")
      case (Inl e)
      with assms p Inr show ?thesis by (auto simp: create_video_def)
    next
      case d: (Inr d)
      obtain er files2 where c: "create_video_with_ffmpeg env files1 a pp output_path d = (er, files2)"
        by (cases "create_video_with_ffmpeg env files1 a pp output_path d")
      show ?thesis
      proof (cases er)
        case (Inl e)
        with assms p Inr d c show ?thesis by (auto simp: create_video_def)
      next
        case r: (Inr r')
        with assms p Inr d c pp show ?thesis by (auto simp: create_video_def split: if_splits)
      qed
    qed
  qed
qed

text \<open>
  Claim C6. For every render call whose output path is not the scratch path of its image: if
  the call returns success then the output file exists when it returns and has at least
  1000 bytes, which is the size the result reports; and when the encoder exits with status
  zero but the output file is missing or shorter than 1000 bytes after it ran, the call
  returns a failure. The job pipeline writes its output under \<open>videos/\<close> and the scratch
  image under \<open>temp/\<close>; an encoder asked to overwrite its own input is not a case the
  environment of this model excludes, hence the condition on the paths.
\<close>
theorem create_video_output_verified:
  "(output_path \<noteq> processed_path_of image_path \<longrightarrow>
      video_success (fst (create_video env files_now audio_path image_path output_path t)) \<longrightarrow>
      (\<exists>f. snd (create_video env files_now audio_path image_path output_path t) output_path = Some f
           \<and> 1000 \<le> fsize f
           \<and> (\<exists>d. fst (create_video env files_now audio_path image_path output_path t)
                    = VideoSuccess output_path (fsize f) d)))
   \<and> (ffmpeg env = Exited 0 written err \<longrightarrow>
      (case run_ffmpeg (snd (process_image env files_now image_path)) output_path written output_path of
         None \<Rightarrow> True | Some f \<Rightarrow> fsize f < 1000) \<longrightarrow>
      \<not> video_success (fst (create_video env files_now audio_path image_path output_path t)))"
proof (intro conjI impI)
  assume ne: "output_path \<noteq> processed_path_of image_path"
    and ok: "video_success (fst (create_video env files_now audio_path image_path output_path t))"
  obtain r ff where cv: "create_video env files_now audio_path image_path output_path t = (r, ff)"
    by (cases "create_video env files_now audio_path image_path output_path t")
  from create_video_success [OF cv] ok cv obtain files1 d files2 where
    c: "create_video_with_ffmpeg env files1 audio_path (processed_path_of image_path) output_path d = (Inr r, files2)"
    and ff: "ff = (if files2 (processed_path_of image_path) \<noteq> None
                           then files2(processed_path_of image_path := None) else files2)"
    by auto
  from create_video_with_ffmpeg_success [OF c] obtain f where
    "files2 output_path = Some f" "1000 \<le> fsize f" "r = VideoSuccess output_path (fsize f) d" by auto
  with ff ne cv show "\<exists>f. snd (create_video env files_now audio_path image_path output_path t) output_path = Some f
           \<and> 1000 \<le> fsize f
           \<and> (\<exists>d. fst (create_video env files_now audio_path image_path output_path t)
                    = VideoSuccess output_path (fsize f) d)"
    by auto
next
  assume ex: "ffmpeg env = Exited 0 written err"
    and small: "case run_ffmpeg (snd (process_image env files_now image_path)) output_path written output_path of
         None \<Rightarrow> True | Some f \<Rightarrow> fsize f < 1000"
  show "\<not> video_success (fst (create_video env files_now audio_path image_path output_path t))"
  proof
    assume ok: "video_success (fst (create_video env files_now audio_path image_path output_path t))"
    obtain r ff where cv: "create_video env files_now audio_path image_path output_path t = (r, ff)"
      by (cases "create_video env files_now audio_path image_path output_path t")
    from create_video_success [OF cv] ok cv obtain files1 d files2 where
      p: "process_image env files_now image_path = (Inr (processed_path_of image_path), files1)" and
      c: "create_video_with_ffmpeg env files1 audio_path (processed_path_of image_path) output_path d = (Inr r, files2)"
      by auto
    from encode_rejects [OF ex, of files1 output_path d] small p
    obtain e where "fst (encode env files1 output_path d) = Inl e" by auto
    with c show False by (auto simp: create_video_with_ffmpeg_def split: prod.splits sum.splits)
  qed
qed

theorem create_video_output_verified_witness:
  "video_success (fst (create_video scenario_env scenario_files ''uploads/j1_audio_beat.mp3''
                         ''uploads/j1_cover_art.png'' ''videos/Night_1730000000.mp4'' ''Night''))
   \<and> (\<exists>f. snd (create_video scenario_env scenario_files ''uploads/j1_audio_beat.mp3''
                   ''uploads/j1_cover_art.png'' ''videos/Night_1730000000.mp4'' ''Night'')
              ''videos/Night_1730000000.mp4'' = Some f \<and> 1000 \<le> fsize f)
   \<and> \<not> video_success
         (fst (create_video
                 (scenario_env\<lparr>ffmpeg := Exited 0 (Some \<lparr>fsize = 12, fcontent = Opaque\<rparr>) []\<rparr>)
                 scenario_files ''uploads/j1_audio_beat.mp3''
                 ''uploads/j1_cover_art.png'' ''videos/Night_1730000000.mp4'' ''Night''))"
proof -
  have ne: "''videos/Night_1730000000.mp4'' \<noteq> processed_path_of ''uploads/j1_cover_art.png''"
    by (simp add: processed_path_of_def temp_dir_def)
  have ok: "video_success (fst (create_video scenario_env scenario_files
              ''uploads/j1_audio_beat.mp3'' ''uploads/j1_cover_art.png''
              ''videos/Night_1730000000.mp4'' ''Night''))"
    by (simp add: create_video_def process_image_def scenario_env_def scenario_files_def
          get_audio_duration_def probe_duration_def processed_path_of_def temp_dir_def
          basename_def create_video_with_ffmpeg_def encode_def run_ffmpeg_def Let_def)
  have ex: "ffmpeg (scenario_env\<lparr>ffmpeg := Exited 0 (Some \<lparr>fsize = 12, fcontent = Opaque\<rparr>) []\<rparr>)
              = Exited 0 (Some \<lparr>fsize = 12, fcontent = Opaque\<rparr>) []"
    by simp
  have small: "case run_ffmpeg
                 (snd (process_image
                         (scenario_env\<lparr>ffmpeg := Exited 0 (Some \<lparr>fsize = 12, fcontent = Opaque\<rparr>) []\<rparr>)
                         scenario_files ''uploads/j1_cover_art.png''))
                 ''videos/Night_1730000000.mp4'' (Some \<lparr>fsize = 12, fcontent = Opaque\<rparr>)
                 ''videos/Night_1730000000.mp4'' of
               None \<Rightarrow> True | Some f \<Rightarrow> fsize f < 1000"
    by (simp add: run_ffmpeg_def)
  from create_video_output_verified
         [where output_path = "''videos/Night_1730000000.mp4''"
            and image_path = "''uploads/j1_cover_art.png''" and env = scenario_env
            and files_now = scenario_files and audio_path = "''uploads/j1_audio_beat.mp3''"
            and t = "''Night''"]
       ne ok
  have a: "\<exists>f. snd (create_video scenario_env scenario_files ''uploads/j1_audio_beat.mp3''
                   ''uploads/j1_cover_art.png'' ''videos/Night_1730000000.mp4'' ''Night'')
              ''videos/Night_1730000000.mp4'' = Some f \<and> 1000 \<le> fsize f"
    by blast
  from create_video_output_verified
         [where output_path = "''videos/Night_1730000000.mp4''"
            and image_path = "''uploads/j1_cover_art.png''"
            and env = "scenario_env\<lparr>ffmpeg := Exited 0 (Some \<lparr>fsize = 12, fcontent = Opaque\<rparr>) []\<rparr>"
            and written = "Some \<lparr>fsize = 12, fcontent = Opaque\<rparr>" and err = "[]"
            and files_now = scenario_files and audio_path = "''uploads/j1_audio_beat.mp3''"
            and t = "''Night''"]
       ex small
  have b: "\<not> video_success
         (fst (create_video
                 (scenario_env\<lparr>ffmpeg := Exited 0 (Some \<lparr>fsize = 12, fcontent = Opaque\<rparr>) []\<rparr>)
                 scenario_files ''uploads/j1_audio_beat.mp3''
                 ''uploads/j1_cover_art.png'' ''videos/Night_1730000000.mp4'' ''Night''))"
    by blast
  from ok a b show ?thesis by blast
qed


text \<open>
  Claim C2. The claim is that the scratch image no longer exists when \<open>create_video\<close>
  returns, on success and on failure alike. The source removes it only after the encoder
  has succeeded: an exception of the duration probe or of the encoder leaves through the
  handler, which removes nothing. In scenario 5 (the probe's output does not parse) and in
  scenario 4 (the encoder exits with a status other than zero) the call returns a failure
  and the scratch image is still there.
\<close>
theorem create_video_leaves_scratch_image:
  "fst (create_video (scenario_env\<lparr>ffprobe := Exited 0 None []\<rparr>) scenario_files
          ''uploads/j1_audio_beat.mp3'' ''uploads/j1_cover_art.png''
          ''videos/Night_1730000000.mp4'' ''Night'')
     = VideoFailure ''Failed to get audio duration: ValueError''
   \<and> snd (create_video (scenario_env\<lparr>ffprobe := Exited 0 None []\<rparr>) scenario_files
          ''uploads/j1_audio_beat.mp3'' ''uploads/j1_cover_art.png''
          ''videos/Night_1730000000.mp4'' ''Night'')
        ''temp/processed_cover_j1_cover_art.png.jpg'' \<noteq> None
   \<and> fst (create_video (scenario_env\<lparr>ffmpeg := Exited 1 None ''Invalid data''\<rparr>) scenario_files
          ''uploads/j1_audio_beat.mp3'' ''uploads/j1_cover_art.png''
          ''videos/Night_1730000000.mp4'' ''Night'')
     = VideoFailure ''FFmpeg video creation failed: FFmpeg failed: Invalid data''
   \<and> snd (create_video (scenario_env\<lparr>ffmpeg := Exited 1 None ''Invalid data''\<rparr>) scenario_files
          ''uploads/j1_audio_beat.mp3'' ''uploads/j1_cover_art.png''
          ''videos/Night_1730000000.mp4'' ''Night'')
        ''temp/processed_cover_j1_cover_art.png.jpg'' \<noteq> None"
  by (simp add: create_video_def process_image_def scenario_env_def scenario_files_def
        get_audio_duration_def probe_duration_def processed_path_of_def temp_dir_def
        basename_def create_video_with_ffmpeg_def encode_def run_ffmpeg_def Let_def)

section \<open>Properties of the uploader\<close>

text \<open>
  Claim C1, as stated: the expiry check of the publish path treats a record as expired if
  and only if \<open>now - created_at \<ge> expires_in\<close>. The source compares with \<open>>\<close>
  (line 134): a record whose age equals its lifetime is not treated as expired, and the
  upload goes on with the stored token, without a refresh.
\<close>

theorem token_expired_counterexample:
  "getitem scenario_creds ''created_at'' = Inr (JNum 1729996500)
   \<and> getitem scenario_creds ''expires_in'' = Inr (JNum 3600)
   \<and> now_upload scenario_env - 1729996500 \<ge> 3600
   \<and> token_expired (now_upload scenario_env) scenario_creds = Inr False
   \<and> sent (snd (upload_video scenario_env scenario_world ''videos/Night_1730000000.mp4''
                   scenario_metadata ''user_credentials/youtube_u1.json''))
       = [POST init_url, PUT ''https://upload.example/session1'']"
  by (simp add: scenario_creds_def scenario_env_def token_expired_def scenario_world_def
        upload_video_def upload_attempt_def read_json_def resumable_upload_def Let_def
        scenario_files_def)

text \<open>
  Claim C1, amended: for every credential record with numeric \<open>created_at\<close> and
  \<open>expires_in\<close> and every current time, the expiry check of the publish path treats the
  record as expired if and only if \<open>now - created_at > expires_in\<close>; the publish path
  refreshes the token in exactly that case and otherwise uploads with the stored token.
\<close>

theorem token_expired_iff_strictly_older:
  assumes "files w creds_path = Some f" and "fcontent f = Json creds_data"
    and "getitem creds_data ''created_at'' = Inr (JNum created_at)"
    and "getitem creds_data ''expires_in'' = Inr (JNum expires_in)"
    and "getitem creds_data ''access_token'' = Inr stored_token"
  shows "token_expired now creds_data = Inr (now - created_at > expires_in)
       \<and> upload_attempt env w video_path md creds_path =
           (if now_upload env - created_at > expires_in
            then (case refresh_access_token env w creds_path of
                    (access_token, w1) \<Rightarrow>
                      if \<not> truthy access_token
                      then (Inr (UploadFailure ''Failed to refresh access token''), w1)
                      else resumable_upload env w1 video_path md access_token)
            else resumable_upload env w video_path md stored_token)"
  using assms by (simp add: token_expired_def upload_attempt_def read_json_def Let_def)

theorem token_expired_iff_strictly_older_witness:
  "token_expired 1730000101 scenario_creds = Inr True
   \<and> token_expired 1730000100 scenario_creds = Inr False"
proof -
  have f: "files scenario_world ''user_credentials/youtube_u1.json''
             = Some \<lparr>fsize = 280, fcontent = Json scenario_creds\<rparr>"
    by (simp add: scenario_world_def)
  have c: "fcontent \<lparr>fsize = 280, fcontent = Json scenario_creds\<rparr> = Json scenario_creds" by simp
  have g: "getitem scenario_creds ''created_at'' = Inr (JNum 1729996500)"
     "getitem scenario_creds ''expires_in'' = Inr (JNum 3600)"
     "getitem scenario_creds ''access_token'' = Inr (JStr ''stale'')"
    by (simp_all add: scenario_creds_def)
  from token_expired_iff_strictly_older
         [where w = scenario_world and creds_path = "''user_credentials/youtube_u1.json''"
            and now = 1730000101, OF f c g]
       token_expired_iff_strictly_older
         [where w = scenario_world and creds_path = "''user_credentials/youtube_u1.json''"
            and now = 1730000100, OF f c g]
  show ?thesis by simp
qed

lemma store_refreshed_token:
  "store_refreshed env creds_data refresh_data = Inr creds_new \<Longrightarrow>
     \<exists>tok. getitem refresh_data ''access_token'' = Inr tok"
  by (cases "getitem refresh_data ''access_token''") (simp_all add: store_refreshed_def)

lemma refresh_exchange_Inl:
  assumes "refresh_exchange env w creds_path = (Inl e, w')"
  shows "files w' = files w \<and> (w' = w \<or> w' = w\<lparr>sent := sent w @ [POST token_url]\<rparr>)"
  using assms unfolding refresh_exchange_def Let_def
  by (auto split: sum.splits if_splits reply.splits option.splits dest: store_refreshed_token)

lemma refresh_exchange_Inr:
  assumes "refresh_exchange env w creds_path = (Inr tok, w')"
  shows "\<exists>creds_data refresh_data creds_new r v.
         read_json (files w) creds_path = Inr creds_data
       \<and> dict_get creds_data ''refresh_token'' JNull = Inr v \<and> truthy v
       \<and> token_reply env = Response r \<and> resp_json r = Some refresh_data
       \<and> contains ''error'' refresh_data = Inr False
       \<and> store_refreshed env creds_data refresh_data = Inr creds_new
       \<and> getitem refresh_data ''access_token'' = Inr tok
       \<and> w' = w\<lparr>sent := sent w @ [POST token_url],
                 files := (files w)(creds_path \<mapsto>
                            \<lparr>fsize = dump_size env, fcontent = Json creds_new\<rparr>)\<rparr>"
  using assms unfolding refresh_exchange_def Let_def
  by (auto split: sum.splits if_splits reply.splits option.splits)

lemma store_refreshed_frame:
  assumes "store_refreshed env creds_data refresh_data = Inr creds_new"
    and "contains ''error'' refresh_data = Inr False"
  shows "\<exists>old new fresh tok.
           creds_data = JObj old \<and> creds_new = JObj new \<and> refresh_data = JObj fresh
         \<and> map_of fresh ''access_token'' = Some tok
         \<and> map_of new ''access_token'' = Some tok
         \<and> map_of new ''created_at'' = Some (JNum (now_refresh env))
         \<and> map_of new ''expires_in''
             = (case map_of fresh ''expires_in'' of
                  None \<Rightarrow> map_of old ''expires_in'' | Some x \<Rightarrow> Some x)
         \<and> (\<forall>k. k \<noteq> ''access_token'' \<longrightarrow> k \<noteq> ''created_at'' \<longrightarrow> k \<noteq> ''expires_in''
                 \<longrightarrow> map_of new k = map_of old k)"
proof -
  from assms(1) obtain tok where tok: "getitem refresh_data ''access_token'' = Inr tok"
    by (auto dest: store_refreshed_token)
  then obtain fresh where fresh: "refresh_data = JObj fresh"
    by (cases refresh_data) simp_all
  from assms(1) tok obtain old where old: "creds_data = JObj old"
    by (cases creds_data) (simp_all add: store_refreshed_def)
  show ?thesis
  proof (cases "map_of fresh ''expires_in''")
    case None
    with assms(1) tok fresh old show ?thesis
      by (auto simp: store_refreshed_def update_conv' split: option.splits)
  next
    case (Some x)
    with assms(1) tok fresh old show ?thesis
      by (auto simp: store_refreshed_def update_conv' split: option.splits)
  qed
qed

text \<open>
  Claim C7, as stated: a non-success response of the token endpoint makes the refresh return
  a failure and leaves the stored record unchanged. The source never reads the status of the
  response: it looks for an \<open>error\<close> member in the decoded body (line 100). A response
  with status 400 whose body has an \<open>access_token\<close> and no \<open>error\<close> is taken as a
  success: the token is returned and the credential file is rewritten.
\<close>

theorem refresh_status_ignored_counterexample:
  "fst (refresh_access_token
          (scenario_env\<lparr>token_reply :=
             Response \<lparr>resp_status = 400, resp_location = None, resp_text = ''Bad Request'',
                       resp_json = Some (JObj [(''access_token'', JStr ''fresh'')])\<rparr>\<rparr>)
          scenario_world ''user_credentials/youtube_u1.json'') = JStr ''fresh''
   \<and> files (snd (refresh_access_token
          (scenario_env\<lparr>token_reply :=
             Response \<lparr>resp_status = 400, resp_location = None, resp_text = ''Bad Request'',
                       resp_json = Some (JObj [(''access_token'', JStr ''fresh'')])\<rparr>\<rparr>)
          scenario_world ''user_credentials/youtube_u1.json'')) ''user_credentials/youtube_u1.json''
       = Some \<lparr>fsize = 300, fcontent = Json (JObj
           [(''access_token'', JStr ''fresh''),
            (''refresh_token'', JStr ''keep''),
            (''token_type'', JStr ''Bearer''),
            (''expires_in'', JNum 3600),
            (''scope'', JStr ''https://www.googleapis.com/auth/youtube.upload''),
            (''created_at'', JNum 1730000101)])\<rparr>
   \<and> files scenario_world ''user_credentials/youtube_u1.json''
       = Some \<lparr>fsize = 280, fcontent = Json (JObj
           [(''access_token'', JStr ''stale''),
            (''refresh_token'', JStr ''keep''),
            (''token_type'', JStr ''Bearer''),
            (''expires_in'', JNum 3600),
            (''scope'', JStr ''https://www.googleapis.com/auth/youtube.upload''),
            (''created_at'', JNum 1729996500)])\<rparr>"
  by (simp add: refresh_access_token_def refresh_exchange_def store_refreshed_def
        scenario_env_def scenario_world_def scenario_creds_def read_json_def Let_def)

text \<open>
  Claim C7, amended: for every call to token refresh on a readable credential record, if the
  record has no refresh token (the key is absent or its value is falsy), or the exchange
  fails in transport, or the response body does not decode as JSON, or the decoded body
  carries an \<open>error\<close> member (whatever the status of the response), then refresh returns
  \<open>None\<close> and no file is written; when the refresh token is missing, no request is sent
  either.
\<close>

theorem refresh_failure_leaves_credentials:
  assumes "read_json (files w) creds_path = Inr creds_data"
    and "(\<exists>v. dict_get creds_data ''refresh_token'' JNull = Inr v \<and> \<not> truthy v)
         \<or> (\<exists>m. token_reply env = TransportFailure m)
         \<or> (\<exists>r. token_reply env = Response r
                \<and> (resp_json r = None
                    \<or> (\<exists>d. resp_json r = Some d \<and> contains ''error'' d \<noteq> Inr False)))"
  shows "fst (refresh_access_token env w creds_path) = JNull
       \<and> files (snd (refresh_access_token env w creds_path)) = files w
       \<and> ((\<exists>v. dict_get creds_data ''refresh_token'' JNull = Inr v \<and> \<not> truthy v)
            \<longrightarrow> snd (refresh_access_token env w creds_path) = w)"
proof -
  obtain res w' where ex: "refresh_exchange env w creds_path = (res, w')"
    by (cases "refresh_exchange env w creds_path")
  show ?thesis
  proof (cases res)
    case (Inl e)
    from refresh_exchange_Inl [OF ex [unfolded Inl]] have f: "files w' = files w" by simp
    have lack: "w' = w" if "dict_get creds_data ''refresh_token'' JNull = Inr v" "\<not> truthy v" for v
      using ex that assms(1) by (simp add: refresh_exchange_def)
    show ?thesis using ex Inl f lack by (auto simp: refresh_access_token_def)
  next
    case (Inr tok)
    from refresh_exchange_Inr [OF ex [unfolded Inr]] assms show ?thesis by auto
  qed
qed

theorem refresh_failure_leaves_credentials_witness:
  "fst (refresh_access_token
          (scenario_env\<lparr>token_reply :=
             Response \<lparr>resp_status = 400, resp_location = None, resp_text = [],
                       resp_json = Some (JObj [(''error'', JStr ''invalid_grant'')])\<rparr>\<rparr>)
          scenario_world ''user_credentials/youtube_u1.json'') = JNull
   \<and> files (snd (refresh_access_token
          (scenario_env\<lparr>token_reply :=
             Response \<lparr>resp_status = 400, resp_location = None, resp_text = [],
                       resp_json = Some (JObj [(''error'', JStr ''invalid_grant'')])\<rparr>\<rparr>)
          scenario_world ''user_credentials/youtube_u1.json'')) = files scenario_world"
proof -
  have r: "read_json (files scenario_world) ''user_credentials/youtube_u1.json'' = Inr scenario_creds"
    by (simp add: read_json_def scenario_world_def)
  have h: "(\<exists>v. dict_get scenario_creds ''refresh_token'' JNull = Inr v \<and> \<not> truthy v)
         \<or> (\<exists>m. token_reply (scenario_env\<lparr>token_reply :=
             Response \<lparr>resp_status = 400, resp_location = None, resp_text = [],
                       resp_json = Some (JObj [(''error'', JStr ''invalid_grant'')])\<rparr>\<rparr>) = TransportFailure m)
         \<or> (\<exists>r. token_reply (scenario_env\<lparr>token_reply :=
             Response \<lparr>resp_status = 400, resp_location = None, resp_text = [],
                       resp_json = Some (JObj [(''error'', JStr ''invalid_grant'')])\<rparr>\<rparr>) = Response r
                \<and> (resp_json r = None
                    \<or> (\<exists>d. resp_json r = Some d \<and> contains ''error'' d \<noteq> Inr False)))"
    by simp
  from refresh_failure_leaves_credentials [OF r h] show ?thesis by simp
qed

text \<open>
  Claim C10. For every token refresh that returns a token, the credential file is rewritten
  with the stored dictionary changed only at \<open>access_token\<close> (the token of the response),
  \<open>created_at\<close> (the time of the refresh) and, when the response carries one,
  \<open>expires_in\<close>; every other key, in particular \<open>refresh_token\<close>, \<open>token_type\<close> and
  \<open>scope\<close>, keeps its stored value, also when the response carries a \<open>refresh_token\<close>.
\<close>

theorem refresh_success_frame:
  assumes "refresh_access_token env w creds_path = (tok, w')" and "tok \<noteq> JNull"
  shows "\<exists>old new fresh r.
           read_json (files w) creds_path = Inr (JObj old)
         \<and> token_reply env = Response r \<and> resp_json r = Some (JObj fresh)
         \<and> files w' = (files w)(creds_path \<mapsto>
                          \<lparr>fsize = dump_size env, fcontent = Json (JObj new)\<rparr>)
         \<and> map_of fresh ''access_token'' = Some tok
         \<and> map_of new ''access_token'' = Some tok
         \<and> map_of new ''created_at'' = Some (JNum (now_refresh env))
         \<and> map_of new ''expires_in''
             = (case map_of fresh ''expires_in'' of
                  None \<Rightarrow> map_of old ''expires_in'' | Some x \<Rightarrow> Some x)
         \<and> (\<forall>k. k \<noteq> ''access_token'' \<longrightarrow> k \<noteq> ''created_at'' \<longrightarrow> k \<noteq> ''expires_in''
                 \<longrightarrow> map_of new k = map_of old k)
         \<and> map_of new ''refresh_token'' = map_of old ''refresh_token''
         \<and> map_of new ''token_type'' = map_of old ''token_type''
         \<and> map_of new ''scope'' = map_of old ''scope''"
proof -
  from assms have ex: "refresh_exchange env w creds_path = (Inr tok, w')"
    by (auto simp: refresh_access_token_def split: prod.splits sum.splits)
  from refresh_exchange_Inr [OF ex] obtain creds_data refresh_data creds_new r where
    rd: "read_json (files w) creds_path = Inr creds_data"
    and tr: "token_reply env = Response r" "resp_json r = Some refresh_data"
    and ne: "contains ''error'' refresh_data = Inr False"
    and st: "store_refreshed env creds_data refresh_data = Inr creds_new"
    and gt: "getitem refresh_data ''access_token'' = Inr tok"
    and w': "w' = w\<lparr>sent := sent w @ [POST token_url],
                 files := (files w)(creds_path \<mapsto>
                            \<lparr>fsize = dump_size env, fcontent = Json creds_new\<rparr>)\<rparr>"
    by (elim exE conjE) (rule that; assumption)
  from store_refreshed_frame [OF st ne] obtain old new fresh tok' where
    fr: "creds_data = JObj old" "creds_new = JObj new" "refresh_data = JObj fresh"
        "map_of fresh ''access_token'' = Some tok'"
        "map_of new ''access_token'' = Some tok'"
        "map_of new ''created_at'' = Some (JNum (now_refresh env))"
        "map_of new ''expires_in''
             = (case map_of fresh ''expires_in'' of
                  None \<Rightarrow> map_of old ''expires_in'' | Some x \<Rightarrow> Some x)"
        "\<forall>k. k \<noteq> ''access_token'' \<longrightarrow> k \<noteq> ''created_at'' \<longrightarrow> k \<noteq> ''expires_in''
                 \<longrightarrow> map_of new k = map_of old k"
    by (elim exE conjE) (rule that; assumption)
  have "tok' = tok" using gt fr(3,4) by simp
  moreover have "map_of new ''refresh_token'' = map_of old ''refresh_token''"
     "map_of new ''token_type'' = map_of old ''token_type''"
     "map_of new ''scope'' = map_of old ''scope''"
    using fr(8) by simp_all
  moreover have "files w' = (files w)(creds_path \<mapsto>
                          \<lparr>fsize = dump_size env, fcontent = Json (JObj new)\<rparr>)"
    using w' fr(2) by simp
  moreover have "read_json (files w) creds_path = Inr (JObj old)" using rd fr(1) by simp
  moreover have "resp_json r = Some (JObj fresh)" using tr(2) fr(3) by simp
  ultimately have "read_json (files w) creds_path = Inr (JObj old)
         \<and> token_reply env = Response r \<and> resp_json r = Some (JObj fresh)
         \<and> files w' = (files w)(creds_path \<mapsto>
                          \<lparr>fsize = dump_size env, fcontent = Json (JObj new)\<rparr>)
         \<and> map_of fresh ''access_token'' = Some tok
         \<and> map_of new ''access_token'' = Some tok
         \<and> map_of new ''created_at'' = Some (JNum (now_refresh env))
         \<and> map_of new ''expires_in''
             = (case map_of fresh ''expires_in'' of
                  None \<Rightarrow> map_of old ''expires_in'' | Some x \<Rightarrow> Some x)
         \<and> (\<forall>k. k \<noteq> ''access_token'' \<longrightarrow> k \<noteq> ''created_at'' \<longrightarrow> k \<noteq> ''expires_in''
                 \<longrightarrow> map_of new k = map_of old k)
         \<and> map_of new ''refresh_token'' = map_of old ''refresh_token''
         \<and> map_of new ''token_type'' = map_of old ''token_type''
         \<and> map_of new ''scope'' = map_of old ''scope''"
    using tr(1) fr(4,5,6,7,8) by simp
  then show ?thesis by (intro exI)
qed

theorem refresh_success_frame_witness:
  "fst (refresh_access_token scenario_env scenario_world ''user_credentials/youtube_u1.json'')
     = JStr ''fresh''
   \<and> (\<exists>new. files (snd (refresh_access_token scenario_env scenario_world
                           ''user_credentials/youtube_u1.json''))
               ''user_credentials/youtube_u1.json''
               = Some \<lparr>fsize = 300, fcontent = Json (JObj new)\<rparr>
            \<and> map_of new ''refresh_token'' = Some (JStr ''keep'')
            \<and> map_of new ''expires_in'' = Some (JNum 3599))"
proof -
  obtain tok w' where
    ra: "refresh_access_token scenario_env scenario_world ''user_credentials/youtube_u1.json''
           = (tok, w')"
    by (cases "refresh_access_token scenario_env scenario_world ''user_credentials/youtube_u1.json''")
  have "fst (refresh_access_token scenario_env scenario_world ''user_credentials/youtube_u1.json'')
     = JStr ''fresh''"
    by (simp add: refresh_access_token_def refresh_exchange_def store_refreshed_def
        scenario_env_def scenario_world_def scenario_creds_def read_json_def Let_def)
  with ra have tok: "tok = JStr ''fresh''" by simp
  then have nn: "tok \<noteq> JNull" by simp
  have rd: "read_json (files scenario_world) ''user_credentials/youtube_u1.json'' = Inr scenario_creds"
    by (simp add: read_json_def scenario_world_def)
  from refresh_success_frame [OF ra nn] obtain old new fresh r where
    a: "read_json (files scenario_world) ''user_credentials/youtube_u1.json'' = Inr (JObj old)"
    and b: "token_reply scenario_env = Response r" "resp_json r = Some (JObj fresh)"
    and c: "files w' = (files scenario_world)(''user_credentials/youtube_u1.json'' \<mapsto>
                          \<lparr>fsize = dump_size scenario_env, fcontent = Json (JObj new)\<rparr>)"
    and d: "map_of new ''refresh_token'' = map_of old ''refresh_token''"
    and e: "map_of new ''expires_in''
             = (case map_of fresh ''expires_in'' of
                  None \<Rightarrow> map_of old ''expires_in'' | Some x \<Rightarrow> Some x)"
    by (elim exE conjE) (rule that; assumption)
  from a rd have old: "map_of old ''refresh_token'' = Some (JStr ''keep'')"
    by (auto simp: scenario_creds_def)
  from b have fresh: "map_of fresh ''expires_in'' = Some (JNum 3599)"
    by (auto simp: scenario_env_def)
  have ds: "dump_size scenario_env = 300" by (simp add: scenario_env_def)
  show ?thesis using ra tok c d e old fresh ds by simp
qed

lemma refresh_access_token_sent:
  "\<exists>new. sent (snd (refresh_access_token env w creds_path)) = sent w @ new
         \<and> (new = [] \<or> new = [POST token_url])"
proof -
  obtain res w' where ex: "refresh_exchange env w creds_path = (res, w')"
    by (cases "refresh_exchange env w creds_path")
  show ?thesis
  proof (cases res)
    case (Inl e)
    from refresh_exchange_Inl [OF ex [unfolded Inl]] ex Inl show ?thesis
      by (auto simp: refresh_access_token_def)
  next
    case (Inr tok)
    from refresh_exchange_Inr [OF ex [unfolded Inr]] ex Inr show ?thesis
      by (auto simp: refresh_access_token_def)
  qed
qed

lemma resumable_upload_sent:
  "\<exists>new. sent (snd (resumable_upload env w video_path md access_token)) = sent w @ new
         \<and> (new = [POST init_url] \<or> (\<exists>loc. new = [POST init_url, PUT loc]))"
  unfolding resumable_upload_def Let_def
  by (auto split: reply.splits option.splits sum.splits)

lemma upload_attempt_sent:
  "\<exists>pre new. sent (snd (upload_attempt env w video_path md creds_path)) = sent w @ pre @ new
         \<and> (pre = [] \<or> pre = [POST token_url])
         \<and> (new = [] \<or> new = [POST init_url] \<or> (\<exists>loc. new = [POST init_url, PUT loc]))"
proof -
  have plain: "\<exists>pre new. sent w = sent w @ pre @ new
         \<and> (pre = [] \<or> pre = [POST token_url])
         \<and> (new = [] \<or> new = [POST init_url] \<or> (\<exists>loc. new = [POST init_url, PUT loc]))"
    by simp
  have direct: "\<exists>pre new. sent (snd (resumable_upload env w video_path md tok)) = sent w @ pre @ new
         \<and> (pre = [] \<or> pre = [POST token_url])
         \<and> (new = [] \<or> new = [POST init_url] \<or> (\<exists>loc. new = [POST init_url, PUT loc]))" for tok
    using resumable_upload_sent [of env w video_path md tok] by (metis append_Nil)
  have refreshed: "\<exists>pre new.
           sent (snd (case refresh_access_token env w creds_path of
                    (access_token, w1) \<Rightarrow>
                      if \<not> truthy access_token
                      then (Inr (UploadFailure ''Failed to refresh access token''), w1)
                      else resumable_upload env w1 video_path md access_token)) = sent w @ pre @ new
         \<and> (pre = [] \<or> pre = [POST token_url])
         \<and> (new = [] \<or> new = [POST init_url] \<or> (\<exists>loc. new = [POST init_url, PUT loc]))"
  proof -
    obtain a w1 where r: "refresh_access_token env w creds_path = (a, w1)"
      by (cases "refresh_access_token env w creds_path")
    from refresh_access_token_sent [of env w creds_path] r obtain pre where
      pre: "sent w1 = sent w @ pre" "pre = [] \<or> pre = [POST token_url]" by auto
    show ?thesis
    proof (cases "truthy a")
      case False
      with r pre show ?thesis by (intro exI [of _ pre] exI [of _ "[]"]) simp
    next
      case True
      from resumable_upload_sent [of env w1 video_path md a] obtain new where
        new: "sent (snd (resumable_upload env w1 video_path md a)) = sent w1 @ new"
             "new = [POST init_url] \<or> (\<exists>loc. new = [POST init_url, PUT loc])" by auto
      with True r pre show ?thesis by (intro exI [of _ pre] exI [of _ new]) simp
    qed
  qed
  show ?thesis
    unfolding upload_attempt_def
    using plain direct refreshed
    by (simp split: sum.splits option.splits)
qed

text \<open>
  Claim C8. For every invocation of \<open>upload_video\<close>, whatever the credentials, the clock
  and the replies are, the requests it issues contain at most one initiation request and at
  most one transfer request.
\<close>

theorem upload_video_single_attempt:
  "\<exists>new. sent (snd (upload_video env w video_path md creds_path)) = sent w @ new
         \<and> length (initiation_requests new) \<le> 1
         \<and> length (transfer_requests new) \<le> 1"
proof -
  from upload_attempt_sent [of env w video_path md creds_path] obtain pre new where
    s: "sent (snd (upload_attempt env w video_path md creds_path)) = sent w @ pre @ new"
    and pre: "pre = [] \<or> pre = [POST token_url]"
    and new: "new = [] \<or> new = [POST init_url] \<or> (\<exists>loc. new = [POST init_url, PUT loc])"
    by (elim exE conjE) (rule that; assumption)
  have same: "sent (snd (upload_video env w video_path md creds_path))
                = sent (snd (upload_attempt env w video_path md creds_path))"
    by (simp add: upload_video_def split: prod.splits sum.splits)
  have ne: "POST token_url \<noteq> POST init_url"
    by (simp add: token_url_def init_url_def upload_url_def)
  have "length (initiation_requests (pre @ new)) \<le> 1"
    using pre new ne by (auto simp: initiation_requests_def)
  moreover have "length (transfer_requests (pre @ new)) \<le> 1"
    using pre new by (auto simp: transfer_requests_def)
  ultimately show ?thesis using s same by (intro exI [of _ "pre @ new"]) simp
qed

theorem upload_video_single_attempt_witness:
  "sent (snd (upload_video (scenario_env\<lparr>now_upload := 1730000101\<rparr>) scenario_world
                ''videos/Night_1730000000.mp4'' scenario_metadata
                ''user_credentials/youtube_u1.json''))
     = [POST token_url, POST init_url, PUT ''https://upload.example/session1'']
   \<and> (\<exists>new. sent (snd (upload_video (scenario_env\<lparr>now_upload := 1730000101\<rparr>) scenario_world
                ''videos/Night_1730000000.mp4'' scenario_metadata
                ''user_credentials/youtube_u1.json'')) = sent scenario_world @ new
         \<and> length (initiation_requests new) \<le> 1
         \<and> length (transfer_requests new) \<le> 1)"
proof -
  have "sent (snd (upload_video (scenario_env\<lparr>now_upload := 1730000101\<rparr>) scenario_world
                ''videos/Night_1730000000.mp4'' scenario_metadata
                ''user_credentials/youtube_u1.json''))
     = [POST token_url, POST init_url, PUT ''https://upload.example/session1'']"
    by (simp add: scenario_creds_def scenario_env_def token_expired_def scenario_world_def
        upload_video_def upload_attempt_def read_json_def resumable_upload_def Let_def
        scenario_files_def refresh_access_token_def refresh_exchange_def store_refreshed_def)
  with upload_video_single_attempt
         [of "scenario_env\<lparr>now_upload := 1730000101\<rparr>" scenario_world
             "''videos/Night_1730000000.mp4''" scenario_metadata
             "''user_credentials/youtube_u1.json''"]
  show ?thesis by simp
qed

section \<open>Properties of the job pipeline\<close>

lemma str_nat_small: "n < 10 \<Longrightarrow> str_nat n = [''0123456789'' ! n]"
  by (simp add: str_nat.simps)

lemma str_nat_large:
  "\<not> n < 10 \<Longrightarrow> str_nat n = str_nat (n div 10) @ [''0123456789'' ! (n mod 10)]"
  by (subst str_nat.simps) simp

lemma scenario_output_path:
  "output_path_of scenario_env scenario_request = ''videos/Night_1730000000.mp4''"
  by (simp add: output_path_of_def scenario_env_def scenario_request_def replace_char_def
        str_int_def trunc_def str_nat_small str_nat_large)

lemma resumable_upload_failure_text:
  "resumable_upload env w video_path md tok = (Inr (UploadFailure err), w') \<Longrightarrow> err \<noteq> []"
  unfolding resumable_upload_def Let_def
  by (auto split: reply.splits option.splits sum.splits if_splits)

lemma upload_attempt_failure_text:
  "upload_attempt env w video_path md creds_path = (Inr (UploadFailure err), w') \<Longrightarrow> err \<noteq> []"
  unfolding upload_attempt_def
  by (auto split: sum.splits if_splits prod.splits dest: resumable_upload_failure_text)

lemma upload_video_failure_text:
  assumes "fst (upload_video env w video_path md creds_path) = UploadFailure err"
  shows "err \<noteq> []"
proof -
  obtain res w' where u: "upload_attempt env w video_path md creds_path = (res, w')"
    by (cases "upload_attempt env w video_path md creds_path")
  show ?thesis
  proof (cases res)
    case (Inl e)
    with assms u show ?thesis by (auto simp: upload_video_def)
  next
    case (Inr r)
    with assms u have "upload_attempt env w video_path md creds_path = (Inr (UploadFailure err), w')"
      by (simp add: upload_video_def)
    then show ?thesis by (rule upload_attempt_failure_text)
  qed
qed

lemma files_update_job [simp]: "files (update_job st job_id f) = files st"
  by (simp add: update_job_def)

lemma sent_update_job [simp]: "sent (update_job st job_id f) = sent st"
  by (simp add: update_job_def)

lemma jobs_update_job [simp]:
  "jobs (update_job st job_id f) job_id = map_option f (jobs st job_id)"
  by (simp add: update_job_def)

lemma jobs_cleanup [simp]: "jobs (cleanup st file_paths) = jobs st"
  by (simp add: cleanup_def)

text \<open>
  Claim C3. For every job whose render stage succeeds, whose user has a credential file, and
  whose publish attempt fails: the background task ends, and the final state of the job has
  status \<open>completed\<close> (not \<open>failed\<close>), progress 100, the text of the publish error, which
  is not empty, in \<open>youtubeError\<close>, and the job-level \<open>error\<close> field as it was before
  the task ran (unset for a job as created).
\<close>

theorem publish_failure_completes_job:
  assumes "jobs st job_id = Some j0"
    and "md = generate_metadata (artistType req) (beatName req) [] (producerName req)"
    and "rendered = create_video env (files st) audio_path image_path
                      (output_path_of env req) (title md)"
    and "video_success (fst rendered)"
    and "snd rendered (creds_path_of (userId req)) \<noteq> None"
    and "fst (upload_video env \<lparr>files = snd rendered, sent = sent st\<rparr>
                (output_path_of env req) md (creds_path_of (userId req))) = UploadFailure err"
  shows "\<exists>st' j'.
           process_video_background env st job_id audio_path image_path req = Inr st'
         \<and> jobs st' job_id = Some j'
         \<and> status j' = ''completed'' \<and> status j' \<noteq> ''failed''
         \<and> progress j' = 100
         \<and> youtubeError j' = Some err \<and> err \<noteq> []
         \<and> error j' = error j0
         \<and> videoPath j' = Some (output_path_of env req)"
proof -
  obtain r files3 where cv: "rendered = (r, files3)" by (cases rendered)
  with assms(4) obtain p n d where r: "r = VideoSuccess p n d" by (cases r) auto
  obtain u w5 where up: "upload_video env \<lparr>files = files3, sent = sent st\<rparr>
                (output_path_of env req) md (creds_path_of (userId req)) = (u, w5)"
    by (cases "upload_video env \<lparr>files = files3, sent = sent st\<rparr>
                (output_path_of env req) md (creds_path_of (userId req))")
  with assms(6) cv have u: "u = UploadFailure err" by simp
  have ne: "err \<noteq> []" using assms(6) by (rule upload_video_failure_text)
  show ?thesis
    using assms(1,5) assms(2) [symmetric] assms(3) [symmetric] cv r up u ne
    by (simp add: process_video_background_def Let_def)
qed

theorem publish_failure_completes_job_witness:
  "\<exists>st' j'.
     process_video_background scenario_env scenario_state ''j1''
       ''uploads/j1_audio_beat.mp3'' ''uploads/j1_cover_art.png'' scenario_request = Inr st'
     \<and> jobs st' ''j1'' = Some j'
     \<and> status j' = ''completed'' \<and> progress j' = 100
     \<and> youtubeError j' = Some ''Failed to refresh access token''
     \<and> error j' = None
     \<and> videoPath j' = Some ''videos/Night_1730000000.mp4''"
proof -
  let ?md = "generate_metadata (artistType scenario_request) (beatName scenario_request) []
               (producerName scenario_request)"
  let ?rendered = "create_video scenario_env (files scenario_state)
                     ''uploads/j1_audio_beat.mp3'' ''uploads/j1_cover_art.png''
                     (output_path_of scenario_env scenario_request) (title ?md)"
  have j: "jobs scenario_state ''j1''
             = Some (new_job ''j1'' ''2024-10-27T03:33:20'' scenario_request)"
    by (simp add: scenario_state_def)
  have ok: "video_success (fst ?rendered)"
    by (simp only: scenario_output_path)
       (simp add: create_video_def process_image_def scenario_env_def
          scenario_state_def scenario_files_def get_audio_duration_def probe_duration_def
          processed_path_of_def temp_dir_def basename_def create_video_with_ffmpeg_def
          encode_def run_ffmpeg_def Let_def)
  have cr: "snd ?rendered (creds_path_of (userId scenario_request)) \<noteq> None"
    by (simp only: scenario_output_path)
       (simp add: create_video_def process_image_def scenario_env_def
          scenario_state_def scenario_files_def get_audio_duration_def probe_duration_def
          processed_path_of_def temp_dir_def basename_def create_video_with_ffmpeg_def
          encode_def run_ffmpeg_def Let_def creds_path_of_def scenario_request_def)
  have up: "fst (upload_video scenario_env \<lparr>files = snd ?rendered, sent = sent scenario_state\<rparr>
                   (output_path_of scenario_env scenario_request) ?md
                   (creds_path_of (userId scenario_request)))
              = UploadFailure ''Failed to refresh access token''"
    by (simp only: scenario_output_path)
       (simp add: create_video_def process_image_def scenario_env_def
          scenario_state_def scenario_files_def get_audio_duration_def probe_duration_def
          processed_path_of_def temp_dir_def basename_def create_video_with_ffmpeg_def
          encode_def run_ffmpeg_def Let_def creds_path_of_def scenario_request_def
          upload_video_def upload_attempt_def read_json_def token_expired_def expired_creds_def
          refresh_access_token_def refresh_exchange_def)
  from publish_failure_completes_job [OF j refl refl ok cr up]
  show ?thesis
    by (elim exE conjE, intro exI conjI) (simp_all add: scenario_output_path new_job_def)
qed

text \<open>
  Claim C4. For every job that is in \<open>jobs\<close> with \<open>videoPath\<close> unset, as the endpoint
  creates it, the background task ends with the job in a terminal state; if the status is
  \<open>failed\<close> then \<open>videoPath\<close> is unset, and if it is \<open>completed\<close> then \<open>videoPath\<close> is
  set, to the output path. The status is \<open>failed\<close> exactly when the render failed.
\<close>

theorem terminal_job_video_path:
  assumes "jobs st job_id = Some j0" and "videoPath j0 = None"
  shows "\<exists>st' j'.
           process_video_background env st job_id audio_path image_path req = Inr st'
         \<and> jobs st' job_id = Some j'
         \<and> (status j' = ''failed'' \<or> status j' = ''completed'')
         \<and> (status j' = ''failed'' \<longrightarrow> videoPath j' = None)
         \<and> (status j' = ''completed'' \<longrightarrow> videoPath j' = Some (output_path_of env req))
         \<and> (status j' = ''failed'' \<longleftrightarrow>
              \<not> video_success (fst (create_video env (files st) audio_path image_path
                    (output_path_of env req)
                    (title (generate_metadata (artistType req) (beatName req) []
                              (producerName req))))))"
proof -
  let ?md = "generate_metadata (artistType req) (beatName req) [] (producerName req)"
  obtain r files3 where cv: "create_video env (files st) audio_path image_path
                     (output_path_of env req) (title ?md) = (r, files3)"
    by (cases "create_video env (files st) audio_path image_path
                     (output_path_of env req) (title ?md)")
  show ?thesis
  proof (cases r)
    case (VideoFailure err)
    with assms cv show ?thesis
      by (simp add: process_video_background_def Let_def)
  next
    case (VideoSuccess p n d)
    show ?thesis
    proof (cases "files3 (creds_path_of (userId req)) = None")
      case True
      with assms cv VideoSuccess show ?thesis
        by (simp add: process_video_background_def Let_def)
    next
      case False
      obtain u w5 where up: "upload_video env \<lparr>files = files3, sent = sent st\<rparr>
                (output_path_of env req) ?md (creds_path_of (userId req)) = (u, w5)"
        by (cases "upload_video env \<lparr>files = files3, sent = sent st\<rparr>
                (output_path_of env req) ?md (creds_path_of (userId req))")
      show ?thesis
      proof (cases u)
        case (UploadSuccess video_id video_url t)
        with assms cv VideoSuccess False up show ?thesis
          by (simp add: process_video_background_def Let_def)
      next
        case (UploadFailure err)
        with assms cv VideoSuccess False up show ?thesis
          by (simp add: process_video_background_def Let_def)
      qed
    qed
  qed
qed

theorem terminal_job_video_path_witness:
  "\<exists>st' j'.
     process_video_background (scenario_env\<lparr>ffmpeg := Exited 1 None ''Invalid data''\<rparr>)
       scenario_state ''j1'' ''uploads/j1_audio_beat.mp3'' ''uploads/j1_cover_art.png''
       scenario_request = Inr st'
     \<and> jobs st' ''j1'' = Some j'
     \<and> status j' = ''failed'' \<and> videoPath j' = None"
proof -
  have j: "jobs scenario_state ''j1''
             = Some (new_job ''j1'' ''2024-10-27T03:33:20'' scenario_request)"
    by (simp add: scenario_state_def)
  have v: "videoPath (new_job ''j1'' ''2024-10-27T03:33:20'' scenario_request) = None"
    by (simp add: new_job_def)
  have bad: "\<not> video_success (fst (create_video
                 (scenario_env\<lparr>ffmpeg := Exited 1 None ''Invalid data''\<rparr>)
                 (files scenario_state) ''uploads/j1_audio_beat.mp3'' ''uploads/j1_cover_art.png''
                 (output_path_of (scenario_env\<lparr>ffmpeg := Exited 1 None ''Invalid data''\<rparr>)
                    scenario_request)
                 (title (generate_metadata (artistType scenario_request)
                           (beatName scenario_request) [] (producerName scenario_request)))))"
    by (simp add: create_video_def process_image_def scenario_env_def
          scenario_state_def scenario_files_def get_audio_duration_def probe_duration_def
          processed_path_of_def temp_dir_def basename_def create_video_with_ffmpeg_def
          encode_def run_ffmpeg_def Let_def)
  from terminal_job_video_path
         [OF j v, of "scenario_env\<lparr>ffmpeg := Exited 1 None ''Invalid data''\<rparr>"
            "''uploads/j1_audio_beat.mp3''" "''uploads/j1_cover_art.png''" scenario_request]
       bad
  show ?thesis by blast
qed

end
